theory Spec2Isabelle
  imports Main "HOL-Library.Word"
begin

section \<open>The init command of connect-cli (lib/commands/init.js)\<close>

text \<open>
  The command is a chain of callback-style steps run by \<^verbatim>\<open>async.series\<close>. Each step
  is embedded as a function from the state of the process and its file system to an
  outcome and the new state. Everything the steps ask of the outside world (the
  answer to the prompt, whether a file operation or a child process fails, the bytes
  of the random source) is read from an environment record, so a theorem that
  quantifies over the environment covers every behaviour of the outside world.
\<close>

subsection \<open>Paths: the posix functions of Node's path module\<close>

text \<open>
  \<^verbatim>\<open>path.join\<close>, \<^verbatim>\<open>path.normalize\<close> and \<^verbatim>\<open>path.basename\<close> belong to
  the platform, not to the repository; they are transcribed from Node's posix
  implementation (split at slashes, drop empty and dot segments, resolve dot-dot
  segments, keep one trailing slash).
\<close>

type_synonym path = string

definition isAbsolute :: "string \<Rightarrow> bool" where
  "isAbsolute p = (case p of [] \<Rightarrow> False | c # _ \<Rightarrow> c = CHR ''/'')"

fun split_slash :: "string \<Rightarrow> string list" where
  "split_slash [] = [[]]"
| "split_slash (c # cs) =
     (if c = CHR ''/'' then [] # split_slash cs
      else (case split_slash cs of [] \<Rightarrow> [[c]] | w # ws \<Rightarrow> (c # w) # ws))"

fun join_slash :: "string list \<Rightarrow> string" where
  "join_slash [] = []"
| "join_slash [w] = w"
| "join_slash (w # v # ws) = w @ CHR ''/'' # join_slash (v # ws)"

fun normalizeArray :: "string list \<Rightarrow> bool \<Rightarrow> string list \<Rightarrow> string list" where
  "normalizeArray [] allowAboveRoot res = res"
| "normalizeArray (p # parts) allowAboveRoot res =
     (if p = [] \<or> p = ''.'' then normalizeArray parts allowAboveRoot res
      else if p = ''..'' then
        (if res \<noteq> [] \<and> last res \<noteq> ''..''
           then normalizeArray parts allowAboveRoot (butlast res)
         else if allowAboveRoot
           then normalizeArray parts allowAboveRoot (res @ [''..''])
         else normalizeArray parts allowAboveRoot res)
      else normalizeArray parts allowAboveRoot (res @ [p]))"

definition path_normalize :: "string \<Rightarrow> string" where
  "path_normalize p =
     (let isAbs = isAbsolute p;
          trailingSlash = (p \<noteq> [] \<and> last p = CHR ''/'');
          q = join_slash (normalizeArray (split_slash p) (\<not> isAbs) []);
          q1 = (if q = [] \<and> \<not> isAbs then ''.'' else q);
          q2 = (if q1 \<noteq> [] \<and> trailingSlash then q1 @ ''/'' else q1)
      in (if isAbs then ''/'' else []) @ q2)"

definition path_join :: "string list \<Rightarrow> string" where
  "path_join segments = path_normalize (join_slash (filter (\<lambda>seg. seg \<noteq> []) segments))"

definition path_basename :: "string \<Rightarrow> string" where
  "path_basename p =
     rev (takeWhile (\<lambda>c. c \<noteq> CHR ''/'') (dropWhile (\<lambda>c. c = CHR ''/'') (rev p)))"

subsection \<open>The file system\<close>

datatype json =
    JString string
  | JNumber int
  | JBool bool
  | JArray "json list"
  | JObject "(string \<times> json) list"

datatype content = Json json | Text string

datatype node = Dir | File content

text \<open>
  A file system is an association list from canonical absolute paths to nodes; the
  first entry of a path is the one in force. \<open>fs_path\<close> is the path the operating
  system resolves an argument to: relative to the working directory, normalized,
  without a trailing slash.
\<close>

type_synonym filesystem = "(path \<times> node) list"

definition fs_path :: "path \<Rightarrow> path \<Rightarrow> path" where
  "fs_path wd p =
     (let q = path_normalize (if isAbsolute p then p else wd @ ''/'' @ p)
      in if q = ''/'' then q else rev (dropWhile (\<lambda>c. c = CHR ''/'') (rev q)))"

definition child_prefix :: "path \<Rightarrow> path" where
  "child_prefix d = (if d = ''/'' then d else d @ ''/'')"

definition is_under :: "path \<Rightarrow> path \<Rightarrow> bool" where
  "is_under d p =
     (take (length (child_prefix d)) p = child_prefix d \<and> drop (length (child_prefix d)) p \<noteq> [])"

definition is_child :: "path \<Rightarrow> path \<Rightarrow> bool" where
  "is_child d p = (is_under d p \<and> CHR ''/'' \<notin> set (drop (length (child_prefix d)) p))"

definition children :: "path \<Rightarrow> filesystem \<Rightarrow> path list" where
  "children d f = remdups (filter (is_child d) (map fst f))"

definition self_and_parents :: "path \<Rightarrow> path list" where
  "self_and_parents p =
     (let segs = filter (\<lambda>seg. seg \<noteq> []) (split_slash p)
      in map (\<lambda>k. CHR ''/'' # join_slash (take k segs)) [0 ..< Suc (length segs)])"

definition parents :: "path \<Rightarrow> path list" where
  "parents p = butlast (self_and_parents p)"

fun add_dirs :: "path list \<Rightarrow> filesystem \<Rightarrow> filesystem" where
  "add_dirs [] f = f"
| "add_dirs (d # ds) f =
     (if map_of f d = None then add_dirs ds ((d, Dir) # f) else add_dirs ds f)"

definition write_file :: "path \<Rightarrow> content \<Rightarrow> filesystem \<Rightarrow> filesystem" where
  "write_file p c f = (p, File c) # add_dirs (parents p) f"

definition copy_tree :: "path \<Rightarrow> path \<Rightarrow> filesystem \<Rightarrow> filesystem" where
  "copy_tree src dst f =
     map (\<lambda>(p, n). (dst @ drop (length src) p, n))
         (filter (\<lambda>(p, n). p = src \<or> is_under src p) f)
     @ add_dirs (parents dst) f"

subsection \<open>The process: state, events, environment\<close>

datatype error = SysError string

datatype event =
    ConsoleLog string
  | CliLog string
  | CliBr
  | CliHeader string
  | CliError string
  | Prompt string
  | Chdir path
  | Mkdirp path
  | Exec string
  | OutputJSON path json
  | OutputFile path string
  | Copy path path
  | RandomBytes nat
  | Exit

record state =
  cwd :: path
  fs :: filesystem
  trace :: "event list"
  rng_pos :: nat
  exit_status :: "int option"

text \<open>
  The environment: \<open>dirname\<close> is the directory of the module (\<^verbatim>\<open>__dirname\<close>),
  \<open>confirm_answer\<close> the user's answer to the prompt, the \<open>_err\<close> fields the error a
  library call reports (\<open>None\<close> when it succeeds), \<open>exec_result\<close> the error and the
  standard output of a child process, \<open>random_byte\<close> the stream of
  \<^verbatim>\<open>crypto.randomBytes\<close>.
\<close>

record env =
  dirname :: path
  confirm_answer :: bool
  readdir_err :: "path \<Rightarrow> error option"
  chdir_err :: "path \<Rightarrow> error option"
  mkdirp_err :: "path \<Rightarrow> error option"
  output_json_err :: "path \<Rightarrow> error option"
  output_file_err :: "path \<Rightarrow> error option"
  copy_err :: "path \<Rightarrow> path \<Rightarrow> error option"
  exec_result :: "string \<Rightarrow> error option \<times> string"
  random_byte :: "nat \<Rightarrow> 8 word"

text \<open>
  How a step ends: it calls its completion callback (\<open>Called None\<close> is
  \<^verbatim>\<open>done()\<close>, \<open>Called (Some e)\<close> is \<^verbatim>\<open>done(err)\<close>), it ends the process
  with \<^verbatim>\<open>process.exit\<close>, or a synchronous call in it throws and nothing catches
  the exception.
\<close>

datatype outcome = Called "error option" | Exited | Threw error

type_synonym step = "state \<Rightarrow> outcome \<times> state"

definition emit :: "event \<Rightarrow> state \<Rightarrow> state" where
  "emit e s = s\<lparr>trace := trace s @ [e]\<rparr>"

definition console_log :: "string \<Rightarrow> state \<Rightarrow> state" where
  "console_log msg s = emit (ConsoleLog msg) s"

definition cli_log :: "string \<Rightarrow> state \<Rightarrow> state" where
  "cli_log msg s = emit (CliLog msg) s"

definition log_br :: "state \<Rightarrow> state" where
  "log_br s = emit CliBr s"

definition log_header :: "string \<Rightarrow> state \<Rightarrow> state" where
  "log_header msg s = emit (CliHeader msg) s"

definition log_error :: "string \<Rightarrow> state \<Rightarrow> state" where
  "log_error msg s = emit (CliError msg) s"

text \<open>
  \<^verbatim>\<open>process.exit(code)\<close>; without an argument the process ends with the success
  status 0.
\<close>

definition process_exit :: "int option \<Rightarrow> state \<Rightarrow> state" where
  "process_exit code s =
     (emit Exit s)\<lparr>exit_status := Some (case code of None \<Rightarrow> 0 | Some c \<Rightarrow> c)\<rparr>"

text \<open>
  The calls into \<^verbatim>\<open>fs-extra\<close>, \<^verbatim>\<open>mkdirp\<close> and \<^verbatim>\<open>process\<close>. Each records
  the attempt in the trace with the path as the step passed it. Whether a call fails
  is the environment's answer; a call that fails leaves the file system as it was,
  one that succeeds has the documented effect: \<^verbatim>\<open>mkdirp\<close> creates the directory
  and its missing parents, \<^verbatim>\<open>outputJSON\<close> and \<^verbatim>\<open>outputFile\<close> create the
  missing parents and the file, \<^verbatim>\<open>copy\<close> copies a file or a whole directory
  and fails when the source is missing. \<^verbatim>\<open>readdirSync\<close> and
  \<^verbatim>\<open>process.chdir\<close> are synchronous: their error is an exception.
\<close>

definition fs_exists :: "state \<Rightarrow> path \<Rightarrow> bool" where
  "fs_exists s p = (map_of (fs s) (fs_path (cwd s) p) \<noteq> None)"

definition readdirSync :: "env \<Rightarrow> path \<Rightarrow> state \<Rightarrow> error + path list" where
  "readdirSync E d s =
     (case readdir_err E d of
        Some e \<Rightarrow> Inl e
      | None \<Rightarrow>
          (case map_of (fs s) (fs_path (cwd s) d) of
             None \<Rightarrow> Inl (SysError ''ENOENT'')
           | Some (File c) \<Rightarrow> Inl (SysError ''ENOTDIR'')
           | Some Dir \<Rightarrow> Inr (children (fs_path (cwd s) d) (fs s))))"

definition chdir :: "env \<Rightarrow> path \<Rightarrow> state \<Rightarrow> error option \<times> state" where
  "chdir E d s =
     (case chdir_err E d of
        Some e \<Rightarrow> (Some e, emit (Chdir d) s)
      | None \<Rightarrow> (None, (emit (Chdir d) s)\<lparr>cwd := fs_path (cwd s) d\<rparr>))"

definition mkdirp :: "env \<Rightarrow> path \<Rightarrow> state \<Rightarrow> error option \<times> state" where
  "mkdirp E d s =
     (case mkdirp_err E d of
        Some e \<Rightarrow> (Some e, emit (Mkdirp d) s)
      | None \<Rightarrow>
          (None, (emit (Mkdirp d) s)\<lparr>fs := add_dirs (self_and_parents (fs_path (cwd s) d)) (fs s)\<rparr>))"

definition outputJSON :: "env \<Rightarrow> path \<Rightarrow> json \<Rightarrow> state \<Rightarrow> error option \<times> state" where
  "outputJSON E file obj s =
     (case output_json_err E file of
        Some e \<Rightarrow> (Some e, emit (OutputJSON file obj) s)
      | None \<Rightarrow>
          (None, (emit (OutputJSON file obj) s)
                   \<lparr>fs := write_file (fs_path (cwd s) file) (Json obj) (fs s)\<rparr>))"

definition outputFile :: "env \<Rightarrow> path \<Rightarrow> string \<Rightarrow> state \<Rightarrow> error option \<times> state" where
  "outputFile E file txt s =
     (case output_file_err E file of
        Some e \<Rightarrow> (Some e, emit (OutputFile file txt) s)
      | None \<Rightarrow>
          (None, (emit (OutputFile file txt) s)
                   \<lparr>fs := write_file (fs_path (cwd s) file) (Text txt) (fs s)\<rparr>))"

definition copy :: "env \<Rightarrow> path \<Rightarrow> path \<Rightarrow> state \<Rightarrow> error option \<times> state" where
  "copy E from to s =
     (case (if map_of (fs s) (fs_path (cwd s) from) = None then Some (SysError ''ENOENT'')
            else copy_err E from to) of
        Some e \<Rightarrow> (Some e, emit (Copy from to) s)
      | None \<Rightarrow>
          (None, (emit (Copy from to) s)
                   \<lparr>fs := copy_tree (fs_path (cwd s) from) (fs_path (cwd s) to) (fs s)\<rparr>))"

text \<open>
  \<^verbatim>\<open>cp.exec\<close>: the command, its error and its standard output. What a child
  process does to the file system is not tracked: no step reads what
  \<^verbatim>\<open>git init\<close> creates, and the openssl commands write to standard output only.
\<close>

definition exec :: "env \<Rightarrow> string \<Rightarrow> state \<Rightarrow> (error option \<times> string) \<times> state" where
  "exec E cmd s = (exec_result E cmd, emit (Exec cmd) s)"

definition hex_digit :: "nat \<Rightarrow> char" where
  "hex_digit n = ''0123456789abcdef'' ! (n mod 16)"

definition toHex :: "8 word list \<Rightarrow> string" where
  "toHex bytes = concat (map (\<lambda>b. [hex_digit (unat b div 16), hex_digit (unat b mod 16)]) bytes)"

text \<open>
  \<^verbatim>\<open>crypto.randomBytes(n)\<close> takes the next \<open>n\<close> bytes of the random source;
  \<open>draw E k n\<close> are the \<open>n\<close> bytes from position \<open>k\<close> on.
\<close>

definition draw :: "env \<Rightarrow> nat \<Rightarrow> nat \<Rightarrow> 8 word list" where
  "draw E k n = map (random_byte E) [k ..< k + n]"

definition randomBytes :: "env \<Rightarrow> nat \<Rightarrow> state \<Rightarrow> 8 word list \<times> state" where
  "randomBytes E n s =
     (draw E (rng_pos s) n, (emit (RandomBytes n) s)\<lparr>rng_pos := rng_pos s + n\<rparr>)"

text \<open>
  \<^verbatim>\<open>str.replace(pattern, replacement)\<close> with a string pattern replaces the first
  occurrence only.
\<close>

fun replace_first :: "string \<Rightarrow> string \<Rightarrow> string \<Rightarrow> string" where
  "replace_first pat rep [] = (if pat = [] then rep else [])"
| "replace_first pat rep (c # cs) =
     (if take (length pat) (c # cs) = pat then rep @ drop (length pat) (c # cs)
      else c # replace_first pat rep cs)"

subsection \<open>async.series\<close>

text \<open>
  The tasks run in order; the first one that calls back with an error ends the
  series with that error. A task that never calls back (the process exited, or an
  exception escaped) ends it too.
\<close>

fun series :: "step list \<Rightarrow> step" where
  "series [] s = (Called None, s)"
| "series (t # ts) s =
     (case t s of
        (Called None, s') \<Rightarrow> series ts s'
      | (Called (Some e), s') \<Rightarrow> (Called (Some e), s')
      | (Exited, s') \<Rightarrow> (Exited, s')
      | (Threw e, s') \<Rightarrow> (Threw e, s'))"

subsection \<open>The steps\<close>

text \<open>
  The context of a run: the positional arguments, the flags and \<open>dir\<close>, which is
  \<^verbatim>\<open>context.data[0] || '.'\<close>. The \<^verbatim>\<open>cli\<close> and \<^verbatim>\<open>options\<close> fields are
  used for logging only; the log calls are events of the trace.
\<close>

record ctx =
  data :: "string list"
  flags :: "string list"
  dir :: path

definition safeJSON :: "env \<Rightarrow> path \<Rightarrow> json \<Rightarrow> step" where
  "safeJSON E file obj s =
     (if fs_exists s file then
        (Called None,
         console_log ('' * '' @ replace_first (cwd s @ ''/'') [] file @ '' already initialized.'') s)
      else
        (case outputJSON E file obj s of
           (err, s1) \<Rightarrow>
             (Called err,
              console_log ('' * Generated '' @ replace_first (cwd s1 @ ''/'') [] file) s1)))"

definition safeCopy :: "env \<Rightarrow> path \<Rightarrow> path \<Rightarrow> step" where
  "safeCopy E from to s =
     (if fs_exists s to then
        (Called None, console_log ('' * '' @ to @ '' already initialized.'') s)
      else
        (case copy E from to s of
           (err, s1) \<Rightarrow> (Called err, console_log ('' * Generated '' @ to) s1)))"

text \<open>
  The paths the steps compute with \<^verbatim>\<open>path.join(process.cwd(), context.dir, ...)\<close>;
  \<open>wd\<close> is the value of \<^verbatim>\<open>process.cwd()\<close> when the path is computed.
\<close>

definition target_dir :: "path \<Rightarrow> ctx \<Rightarrow> path" where
  "target_dir wd c = path_join [wd, dir c]"

definition manifest_file :: "path \<Rightarrow> ctx \<Rightarrow> path" where
  "manifest_file wd c = path_join [wd, dir c, ''package.json'']"

definition development_file :: "path \<Rightarrow> ctx \<Rightarrow> path" where
  "development_file wd c = path_join [wd, dir c, ''config'', ''development.json'']"

definition production_file :: "path \<Rightarrow> ctx \<Rightarrow> path" where
  "production_file wd c = path_join [wd, dir c, ''config'', ''production.json'']"

definition keys_dir :: "path \<Rightarrow> ctx \<Rightarrow> path" where
  "keys_dir wd c = path_join [wd, dir c, ''config'', ''keys'']"

definition private_pem :: "path \<Rightarrow> ctx \<Rightarrow> path" where
  "private_pem wd c = path_join [keys_dir wd c, ''private.pem'']"

definition public_pem :: "path \<Rightarrow> ctx \<Rightarrow> path" where
  "public_pem wd c = path_join [keys_dir wd c, ''public.pem'']"

definition directory :: "env \<Rightarrow> ctx \<Rightarrow> step" where
  "directory E c s =
     (let d = target_dir (cwd s) c in
      if fs_exists s d then
        (case readdirSync E d s of
           Inl e \<Rightarrow> (Threw e, s)
         | Inr names \<Rightarrow>
             if length names > 0 then
               (let s1 = emit (Prompt ''This is not an empty directory. Are you sure you want to proceed?'') s
                in if confirm_answer E then
                     (case chdir E d s1 of
                        (Some e, s2) \<Rightarrow> (Threw e, s2)
                      | (None, s2) \<Rightarrow> (Called None, log_br s2))
                   else (Exited, process_exit None (log_error ''ABORTED'' (log_br s1))))
             else (Called None, s))
      else
        (case mkdirp E d s of
           (Some e, s1) \<Rightarrow> (Called (Some e), s1)
         | (None, s1) \<Rightarrow>
             (case chdir E d s1 of
                (Some e, s2) \<Rightarrow> (Threw e, s2)
              | (None, s2) \<Rightarrow> (Called None, s2))))"

definition git :: "env \<Rightarrow> ctx \<Rightarrow> step" where
  "git E c s =
     (let d = target_dir (cwd s) c in
      if fs_exists s d then (Called None, cli_log '' * Git repository already initialized.'' s)
      else
        (case exec E ''git init'' s of
           ((err, out), s1) \<Rightarrow> (Called err, cli_log '' * Initialized git repository'' s1)))"

text \<open>
  \<^verbatim>\<open>npm(context)\<close>, \<^verbatim>\<open>development(context)\<close>, \<^verbatim>\<open>production(context)\<close> and
  \<^verbatim>\<open>keys(context)\<close> compute their paths (and draw their secrets) when they are
  called, which is when the task list is built; the step they return runs later.
  The state they are called in is the argument before the step's own state.
\<close>

definition manifest :: "ctx \<Rightarrow> json" where
  "manifest c =
     JObject
       [(''name'', JString (path_basename (dir c))),
        (''version'', JString ''0.0.0''),
        (''description'', JString ''Anvil Connect Deployment''),
        (''private'', JBool True),
        (''main'', JString ''server.js''),
        (''scripts'', JObject [(''start'', JString ''node server.js'')]),
        (''engines'', JObject [(''node'', JString ''>=0.12.0'')]),
        (''dependencies'', JObject [(''anvil-connect'', JString ''0.1.42'')])]"

definition npm :: "env \<Rightarrow> ctx \<Rightarrow> state \<Rightarrow> step" where
  "npm E c s0 = safeJSON E (manifest_file (cwd s0) c) (manifest c)"

definition google :: json where
  "google =
     JObject
       [(''client_id'', JString ''ID''),
        (''client_secret'', JString ''SECRET''),
        (''scope'',
           JArray [JString ''https://www.googleapis.com/auth/userinfo.profile'',
                   JString ''https://www.googleapis.com/auth/userinfo.email''])]"

definition development_config :: "string \<Rightarrow> string \<Rightarrow> json" where
  "development_config cookie session =
     JObject
       [(''port'', JNumber 3000),
        (''issuer'', JString ''http://localhost:3000''),
        (''client_registration'', JString ''scoped''),
        (''cookie_secret'', JString cookie),
        (''session_secret'', JString session),
        (''providers'', JObject [(''password'', JBool True), (''google'', google)])]"

definition production_config :: "string \<Rightarrow> string \<Rightarrow> json" where
  "production_config cookie session =
     JObject
       [(''port'', JNumber 80),
        (''issuer'', JString ''https://HOST''),
        (''client_registration'', JString ''scoped''),
        (''cookie_secret'', JString cookie),
        (''session_secret'', JString session),
        (''providers'',
           JObject
             [(''password'', JBool True),
              (''google'', google),
              (''redis'',
                 JObject [(''url'', JString ''redis://HOST:PORT''),
                          (''auth'', JString ''PASSWORD'')])])]"

definition development :: "env \<Rightarrow> ctx \<Rightarrow> state \<Rightarrow> step \<times> state" where
  "development E c s0 =
     (let file = development_file (cwd s0) c in
      case randomBytes E 10 s0 of
        (b1, s1) \<Rightarrow>
          (case randomBytes E 10 s1 of
             (b2, s2) \<Rightarrow> (safeJSON E file (development_config (toHex b1) (toHex b2)), s2)))"

definition production :: "env \<Rightarrow> ctx \<Rightarrow> state \<Rightarrow> step \<times> state" where
  "production E c s0 =
     (let file = production_file (cwd s0) c in
      case randomBytes E 10 s0 of
        (b1, s1) \<Rightarrow>
          (case randomBytes E 10 s1 of
             (b2, s2) \<Rightarrow> (safeJSON E file (production_config (toHex b1) (toHex b2)), s2)))"

definition files :: "env \<Rightarrow> ctx \<Rightarrow> step" where
  "files E c =
     series
       [safeCopy E (path_join [dirname E, ''..'', ''files'', ''server.js'']) ''server.js'',
        safeCopy E (path_join [dirname E, ''..'', ''files'', ''views'']) ''views'',
        safeCopy E (path_join [dirname E, ''..'', ''files'', ''public'']) ''public'',
        safeCopy E (path_join [dirname E, ''..'', ''files'', ''gitignore'']) ''.gitignore'']"

definition keys :: "env \<Rightarrow> ctx \<Rightarrow> state \<Rightarrow> step" where
  "keys E c s0 s =
     (let kdir = keys_dir (cwd s0) c;
          pvt = private_pem (cwd s0) c;
          pub = public_pem (cwd s0) c
      in
      if fs_exists s kdir then
        (Called None, console_log '' * RSA key pair already initialized.'' s)
      else
        (case exec E ''openssl genrsa 2048'' s of
           ((Some e, out), s1) \<Rightarrow> (Called (Some e), s1)
         | ((None, out), s1) \<Rightarrow>
             (case outputFile E pvt out s1 of
                (Some e, s2) \<Rightarrow> (Called (Some e), s2)
              | (None, s2) \<Rightarrow>
                  (case exec E (''openssl rsa -in '' @ pvt @ '' -pubout'') s2 of
                     ((Some e, out2), s3) \<Rightarrow> (Called (Some e), s3)
                   | ((None, out2), s3) \<Rightarrow>
                       (case outputFile E pub out2 s3 of
                          (Some e, s4) \<Rightarrow> (Called (Some e), s4)
                        | (None, s4) \<Rightarrow>
                            (Called None, console_log '' * Generated RSA keypair'' s4))))))"

subsection \<open>The command handler\<close>

definition context_dir :: "string list \<Rightarrow> path" where
  "context_dir args = (case args of [] \<Rightarrow> ''.'' | a # _ \<Rightarrow> if a = [] then ''.'' else a)"

text \<open>
  The callback the handler gives to \<^verbatim>\<open>async.series\<close>: it logs a blank line and
  the DONE header whatever error it is given. The outcome is what the callback
  received.
\<close>

definition finished :: "outcome \<times> state \<Rightarrow> outcome \<times> state" where
  "finished r =
     (case r of
        (Called err, s) \<Rightarrow> (Called err, log_header ''DONE'' (log_br s))
      | (Exited, s) \<Rightarrow> (Exited, s)
      | (Threw e, s) \<Rightarrow> (Threw e, s))"

text \<open>The handler registered by \<^verbatim>\<open>registerInit\<close>.\<close>

definition registerInit :: "env \<Rightarrow> string list \<Rightarrow> string list \<Rightarrow> step" where
  "registerInit E args fl s =
     (let c = \<lparr>data = args, flags = fl, dir = context_dir args\<rparr>;
          s1 = log_br (log_header ''Initializing your new Anvil Connect instance.'' (log_br s))
      in
      case development E c s1 of
        (dev_step, s2) \<Rightarrow>
          (case production E c s2 of
             (prod_step, s3) \<Rightarrow>
               finished
                 (series [directory E c, git E c, npm E c s1, dev_step, prod_step,
                          files E c, keys E c s3] s3)))"

subsection \<open>Vocabulary of the properties\<close>

text \<open>
  The events a run added to the trace, the lines it printed with
  \<^verbatim>\<open>console.log\<close>, the events that write to the file system, the lookup of a
  field in a JSON object, and the node a path names in a state.
\<close>

definition new_events :: "state \<Rightarrow> state \<Rightarrow> event list" where
  "new_events s s' = drop (length (trace s)) (trace s')"

fun console_output :: "event list \<Rightarrow> string list" where
  "console_output [] = []"
| "console_output (ConsoleLog msg # evs) = msg # console_output evs"
| "console_output (ev # evs) = console_output evs"

fun is_write :: "event \<Rightarrow> bool" where
  "is_write (OutputJSON file obj) = True"
| "is_write (OutputFile file txt) = True"
| "is_write (Copy from to) = True"
| "is_write (Mkdirp d) = True"
| "is_write ev = False"

fun jget :: "string \<Rightarrow> json \<Rightarrow> json option" where
  "jget k (JObject kvs) = map_of kvs k"
| "jget k j = None"

definition node_at :: "state \<Rightarrow> path \<Rightarrow> node option" where
  "node_at s p = map_of (fs s) (fs_path (cwd s) p)"

text \<open>
  The segments of a normalized absolute path, a plain file name (no slash, not a dot
  segment), and the directory a canonical path lies in (posix dirname).
\<close>

definition segments :: "path \<Rightarrow> string list" where
  "segments p = normalizeArray (split_slash p) False []"

definition plain :: "string \<Rightarrow> bool" where
  "plain n = (n \<noteq> [] \<and> CHR ''/'' \<notin> set n \<and> n \<noteq> ''.'' \<and> n \<noteq> ''..'')"

definition parent_dir :: "path \<Rightarrow> path" where
  "parent_dir p =
     (let r = dropWhile (\<lambda>c. c \<noteq> CHR ''/'') (rev p)
      in if r = ''/'' then r else rev (tl r))"

text \<open>
  The state in which the series starts: the handler has logged its header and the
  two configuration tasks have drawn their secrets. \<open>entered\<close> is the state
  in which the directory step completes after the user has confirmed a non-empty
  target, \<open>in_target\<close> a state with the target as working directory.
\<close>

definition started :: "state \<Rightarrow> state" where
  "started s =
     s\<lparr>trace := trace s @ [CliBr, CliHeader ''Initializing your new Anvil Connect instance.'', CliBr,
                             RandomBytes 10, RandomBytes 10, RandomBytes 10, RandomBytes 10],
       rng_pos := rng_pos s + 40\<rparr>"

definition entered :: "state \<Rightarrow> ctx \<Rightarrow> state" where
  "entered s c =
     emit CliBr
       ((emit (Chdir (target_dir (cwd s) c))
           (emit (Prompt ''This is not an empty directory. Are you sure you want to proceed?'')
              (started s)))
        \<lparr>cwd := fs_path (cwd s) (target_dir (cwd s) c)\<rparr>)"

definition in_target :: "state \<Rightarrow> ctx \<Rightarrow> state" where
  "in_target s c = s\<lparr>cwd := fs_path (cwd s) (target_dir (cwd s) c)\<rparr>"

text \<open>
  A populated target: the target is a directory and every destination the artifact
  steps test exists, the absolute ones as computed at invocation, the relative
  template destinations inside the target. \<open>already_initialized_lines\<close> are the
  lines the artifact steps print in that case.
\<close>

definition populated :: "state \<Rightarrow> ctx \<Rightarrow> bool" where
  "populated s c =
     (node_at s (target_dir (cwd s) c) = Some Dir \<and>
      fs_exists s (manifest_file (cwd s) c) \<and>
      fs_exists s (development_file (cwd s) c) \<and>
      fs_exists s (production_file (cwd s) c) \<and>
      fs_exists (in_target s c) ''server.js'' \<and>
      fs_exists (in_target s c) ''views'' \<and>
      fs_exists (in_target s c) ''public'' \<and>
      fs_exists (in_target s c) ''.gitignore'' \<and>
      fs_exists s (keys_dir (cwd s) c))"

definition already_initialized_lines :: "state \<Rightarrow> ctx \<Rightarrow> string list" where
  "already_initialized_lines s c =
     ['' * '' @ replace_first (cwd (in_target s c) @ ''/'') [] (manifest_file (cwd s) c)
        @ '' already initialized.'',
      '' * '' @ replace_first (cwd (in_target s c) @ ''/'') [] (development_file (cwd s) c)
        @ '' already initialized.'',
      '' * '' @ replace_first (cwd (in_target s c) @ ''/'') [] (production_file (cwd s) c)
        @ '' already initialized.'',
      '' * server.js already initialized.'',
      '' * views already initialized.'',
      '' * public already initialized.'',
      '' * .gitignore already initialized.'',
      '' * RSA key pair already initialized.'']"

text \<open>
  The state of the key step when the private key has been written and the second
  child process has been run.
\<close>

definition private_written :: "ctx \<Rightarrow> state \<Rightarrow> string \<Rightarrow> state \<Rightarrow> state" where
  "private_written c s0 pem s =
     (emit (Exec (''openssl rsa -in '' @ private_pem (cwd s0) c @ '' -pubout''))
        ((emit (OutputFile (private_pem (cwd s0) c) pem) (emit (Exec ''openssl genrsa 2048'') s))
           \<lparr>fs := write_file (fs_path (cwd s) (private_pem (cwd s0) c)) (Text pem) (fs s)\<rparr>))"

subsection \<open>Example environments, contexts and states\<close>

text \<open>
  Environments: \<open>quiet\<close> confirms the prompt and lets every operation succeed;
  the others differ from it in one answer.
\<close>

definition quiet :: env where
  "quiet =
     \<lparr>dirname = ''/opt/cli/lib/commands'', confirm_answer = True,
      readdir_err = (\<lambda>d. None), chdir_err = (\<lambda>d. None), mkdirp_err = (\<lambda>d. None),
      output_json_err = (\<lambda>f. None), output_file_err = (\<lambda>f. None),
      copy_err = (\<lambda>from to. None), exec_result = (\<lambda>cmd. (None, ''out: '' @ cmd)),
      random_byte = (\<lambda>k. of_nat (7 * k + 3))\<rparr>"

definition readonly :: env where
  "readonly = quiet\<lparr>output_json_err := (\<lambda>f. Some (SysError ''EACCES''))\<rparr>"

definition no_copy :: env where
  "no_copy = quiet\<lparr>copy_err := (\<lambda>from to. Some (SysError ''EACCES''))\<rparr>"

definition declining :: env where
  "declining = quiet\<lparr>confirm_answer := False\<rparr>"

definition no_mkdir :: env where
  "no_mkdir = quiet\<lparr>mkdirp_err := (\<lambda>d. Some (SysError ''EACCES''))\<rparr>"



text \<open>
  Contexts for the targets \<^verbatim>\<open>proj\<close>, \<^verbatim>\<open>.\<close> (no argument) and
  \<^verbatim>\<open>/tmp/proj\<close>.
\<close>

definition proj :: ctx where
  "proj = \<lparr>data = [''proj''], flags = [], dir = ''proj''\<rparr>"

definition here :: ctx where
  "here = \<lparr>data = [], flags = [], dir = ''.''\<rparr>"

definition tmp_proj :: ctx where
  "tmp_proj = \<lparr>data = [''/tmp/proj''], flags = [], dir = ''/tmp/proj''\<rparr>"

text \<open>
  File systems and states: the installed tool with its bundled templates; a home
  directory without the target; the target present and empty; the target holding
  only the key directory; the target fully initialized; an empty working directory;
  a working directory that holds a repository.
\<close>

definition installed :: filesystem where
  "installed =
     [(''/'', Dir), (''/home'', Dir), (''/home/u'', Dir),
      (''/opt/cli/lib/files/server.js'', File (Text ''server'')),
      (''/opt/cli/lib/files/views'', Dir),
      (''/opt/cli/lib/files/views/signin.jade'', File (Text ''signin'')),
      (''/opt/cli/lib/files/public'', Dir),
      (''/opt/cli/lib/files/gitignore'', File (Text ''node_modules''))]"

definition at_home :: state where
  "at_home = \<lparr>cwd = ''/home/u'', fs = installed, trace = [], rng_pos = 0, exit_status = None\<rparr>"

definition empty_target :: state where
  "empty_target = at_home\<lparr>fs := (''/home/u/proj'', Dir) # installed\<rparr>"


definition initialized :: filesystem where
  "initialized =
     [(''/home/u/proj/config/keys/public.pem'', File (Text ''PUBLIC KEY'')),
      (''/home/u/proj/config/keys/private.pem'', File (Text ''PRIVATE KEY'')),
      (''/home/u/proj/config/keys'', Dir),
      (''/home/u/proj/.gitignore'', File (Text ''node_modules'')),
      (''/home/u/proj/public'', Dir),
      (''/home/u/proj/views'', Dir),
      (''/home/u/proj/views/signin.jade'', File (Text ''signin'')),
      (''/home/u/proj/server.js'', File (Text ''server'')),
      (''/home/u/proj/config/production.json'', File (Json (production_config ''00'' ''11''))),
      (''/home/u/proj/config/development.json'', File (Json (development_config ''22'' ''33''))),
      (''/home/u/proj/config'', Dir),
      (''/home/u/proj/package.json'', File (Json (manifest proj))),
      (''/home/u/proj'', Dir)] @ installed"

definition second_visit :: state where
  "second_visit = \<lparr>cwd = ''/home/u'', fs = initialized, trace = [], rng_pos = 0, exit_status = None\<rparr>"

definition fresh :: state where
  "fresh =
     \<lparr>cwd = ''/home/u/app'', fs = (''/home/u/app'', Dir) # installed, trace = [], rng_pos = 0,
      exit_status = None\<rparr>"

definition cloned :: state where
  "cloned =
     \<lparr>cwd = ''/home/u/proj'',
      fs = [(''/home/u/proj/.git'', Dir), (''/home/u/proj/README.md'', File (Text ''readme'')),
            (''/home/u/proj'', Dir)] @ installed,
      trace = [], rng_pos = 0, exit_status = None\<rparr>"

text \<open>
  The run that initializes the missing directory \<^verbatim>\<open>/tmp/proj\<close> from the working
  directory \<^verbatim>\<open>/\<close>: the state after each task, for any two configuration
  documents.
\<close>

definition at_root :: state where
  "at_root = \<lparr>cwd = ''/'', fs = installed, trace = [], rng_pos = 0, exit_status = None\<rparr>"

definition after_directory :: state where
  "after_directory =
     (started at_root)
       \<lparr>cwd := ''/tmp/proj'',
        fs := [(''/tmp/proj'', Dir), (''/tmp'', Dir)] @ installed,
        trace := trace (started at_root) @ [Mkdirp ''/tmp/proj'', Chdir ''/tmp/proj'']\<rparr>"

definition after_git :: state where
  "after_git =
     after_directory
       \<lparr>trace := trace after_directory @ [Exec ''git init'', CliLog '' * Initialized git repository'']\<rparr>"

definition after_manifest :: state where
  "after_manifest =
     after_git
       \<lparr>fs := (''/tmp/proj/package.json'', File (Json (manifest tmp_proj))) # fs after_git,
        trace := trace after_git @
          [OutputJSON ''/tmp/proj/package.json'' (manifest tmp_proj),
           ConsoleLog '' * Generated package.json'']\<rparr>"

definition after_development :: "json \<Rightarrow> state" where
  "after_development dev =
     after_manifest
       \<lparr>fs := (''/tmp/proj/config/development.json'', File (Json dev))
                # (''/tmp/proj/config'', Dir) # fs after_manifest,
        trace := trace after_manifest @
          [OutputJSON ''/tmp/proj/config/development.json'' dev,
           ConsoleLog '' * Generated config/development.json'']\<rparr>"

definition after_production :: "json \<Rightarrow> json \<Rightarrow> state" where
  "after_production dev prd =
     (after_development dev)
       \<lparr>fs := (''/tmp/proj/config/production.json'', File (Json prd))
                # fs (after_development dev),
        trace := trace (after_development dev) @
          [OutputJSON ''/tmp/proj/config/production.json'' prd,
           ConsoleLog '' * Generated config/production.json'']\<rparr>"

definition after_files :: "json \<Rightarrow> json \<Rightarrow> state" where
  "after_files dev prd =
     (after_production dev prd)
       \<lparr>fs := [(''/tmp/proj/.gitignore'', File (Text ''node_modules'')),
                (''/tmp/proj/public'', Dir),
                (''/tmp/proj/views'', Dir),
                (''/tmp/proj/views/signin.jade'', File (Text ''signin'')),
                (''/tmp/proj/server.js'', File (Text ''server''))] @ fs (after_production dev prd),
        trace := trace (after_production dev prd) @
          [Copy ''/opt/cli/lib/files/server.js'' ''server.js'', ConsoleLog '' * Generated server.js'',
           Copy ''/opt/cli/lib/files/views'' ''views'', ConsoleLog '' * Generated views'',
           Copy ''/opt/cli/lib/files/public'' ''public'', ConsoleLog '' * Generated public'',
           Copy ''/opt/cli/lib/files/gitignore'' ''.gitignore'', ConsoleLog '' * Generated .gitignore'']\<rparr>"

definition after_keys :: "json \<Rightarrow> json \<Rightarrow> state" where
  "after_keys dev prd =
     (after_files dev prd)
       \<lparr>fs := [(''/tmp/proj/config/keys/public.pem'',
                   File (Text ''out: openssl rsa -in /tmp/proj/config/keys/private.pem -pubout'')),
                (''/tmp/proj/config/keys/private.pem'', File (Text ''out: openssl genrsa 2048'')),
                (''/tmp/proj/config/keys'', Dir)] @ fs (after_files dev prd),
        trace := trace (after_files dev prd) @
          [Exec ''openssl genrsa 2048'',
           OutputFile ''/tmp/proj/config/keys/private.pem'' ''out: openssl genrsa 2048'',
           Exec ''openssl rsa -in /tmp/proj/config/keys/private.pem -pubout'',
           OutputFile ''/tmp/proj/config/keys/public.pem''
             ''out: openssl rsa -in /tmp/proj/config/keys/private.pem -pubout'',
           ConsoleLog '' * Generated RSA keypair'']\<rparr>"

text \<open>
  The run with no argument in the empty working directory \<^verbatim>\<open>/home/u/app\<close>: the
  state after each task, for any two configuration documents.
\<close>

definition app_git :: state where
  "app_git =
     (started fresh)
       \<lparr>trace := trace (started fresh) @ [CliLog '' * Git repository already initialized.'']\<rparr>"

definition app_manifest :: state where
  "app_manifest =
     app_git
       \<lparr>fs := (''/home/u/app/package.json'', File (Json (manifest here))) # fs app_git,
        trace := trace app_git @
          [OutputJSON ''/home/u/app/package.json'' (manifest here),
           ConsoleLog '' * Generated package.json'']\<rparr>"

definition app_development :: "json \<Rightarrow> state" where
  "app_development dev =
     app_manifest
       \<lparr>fs := (''/home/u/app/config/development.json'', File (Json dev))
                # (''/home/u/app/config'', Dir) # fs app_manifest,
        trace := trace app_manifest @
          [OutputJSON ''/home/u/app/config/development.json'' dev,
           ConsoleLog '' * Generated config/development.json'']\<rparr>"

definition app_production :: "json \<Rightarrow> json \<Rightarrow> state" where
  "app_production dev prd =
     (app_development dev)
       \<lparr>fs := (''/home/u/app/config/production.json'', File (Json prd))
                # fs (app_development dev),
        trace := trace (app_development dev) @
          [OutputJSON ''/home/u/app/config/production.json'' prd,
           ConsoleLog '' * Generated config/production.json'']\<rparr>"

definition app_files :: "json \<Rightarrow> json \<Rightarrow> state" where
  "app_files dev prd =
     (app_production dev prd)
       \<lparr>fs := [(''/home/u/app/.gitignore'', File (Text ''node_modules'')),
                (''/home/u/app/public'', Dir),
                (''/home/u/app/views'', Dir),
                (''/home/u/app/views/signin.jade'', File (Text ''signin'')),
                (''/home/u/app/server.js'', File (Text ''server''))] @ fs (app_production dev prd),
        trace := trace (app_production dev prd) @
          [Copy ''/opt/cli/lib/files/server.js'' ''server.js'', ConsoleLog '' * Generated server.js'',
           Copy ''/opt/cli/lib/files/views'' ''views'', ConsoleLog '' * Generated views'',
           Copy ''/opt/cli/lib/files/public'' ''public'', ConsoleLog '' * Generated public'',
           Copy ''/opt/cli/lib/files/gitignore'' ''.gitignore'', ConsoleLog '' * Generated .gitignore'']\<rparr>"

definition app_keys :: "json \<Rightarrow> json \<Rightarrow> state" where
  "app_keys dev prd =
     (app_files dev prd)
       \<lparr>fs := [(''/home/u/app/config/keys/public.pem'',
                   File (Text ''out: openssl rsa -in /home/u/app/config/keys/private.pem -pubout'')),
                (''/home/u/app/config/keys/private.pem'', File (Text ''out: openssl genrsa 2048'')),
                (''/home/u/app/config/keys'', Dir)] @ fs (app_files dev prd),
        trace := trace (app_files dev prd) @
          [Exec ''openssl genrsa 2048'',
           OutputFile ''/home/u/app/config/keys/private.pem'' ''out: openssl genrsa 2048'',
           Exec ''openssl rsa -in /home/u/app/config/keys/private.pem -pubout'',
           OutputFile ''/home/u/app/config/keys/public.pem''
             ''out: openssl rsa -in /home/u/app/config/keys/private.pem -pubout'',
           ConsoleLog '' * Generated RSA keypair'']\<rparr>"

section \<open>Paths\<close>

lemma split_slash_nonempty [simp]: "split_slash p \<noteq> []"
  by (induction p) (auto split: list.splits)

lemma split_slash_append: "split_slash (a @ CHR ''/'' # b) = split_slash a @ split_slash b"
  by (induction a) (auto split: list.splits)

lemma split_slash_no_slash: "CHR ''/'' \<notin> set n \<Longrightarrow> split_slash n = [n]"
  by (induction n) auto

lemma split_slash_elems: "w \<in> set (split_slash p) \<Longrightarrow> CHR ''/'' \<notin> set w"
  by (induction p arbitrary: w) (auto split: list.splits if_splits)

lemma normalizeArray_append:
  "normalizeArray (xs @ ys) b acc = normalizeArray ys b (normalizeArray xs b acc)"
  by (induction xs b acc rule: normalizeArray.induct) auto

lemma normalizeArray_plain:
  "list_all plain R \<Longrightarrow> normalizeArray R b acc = acc @ R"
  by (induction R arbitrary: acc) (auto simp: plain_def)

lemma normalizeArray_elems:
  "\<not> b \<Longrightarrow> list_all (\<lambda>w. CHR ''/'' \<notin> set w) ws \<Longrightarrow> list_all plain acc \<Longrightarrow>
   list_all plain (normalizeArray ws b acc)"
proof (induction ws b acc rule: normalizeArray.induct)
  case (1 allowAboveRoot res)
  then show ?case by simp
next
  case (2 p parts allowAboveRoot res)
  have bl: "list_all plain (butlast res)"
    using "2.prems"(3) by (auto simp: list_all_iff dest: in_set_butlastD)
  have pp: "p \<noteq> [] \<Longrightarrow> p \<noteq> ''.'' \<Longrightarrow> p \<noteq> ''..'' \<Longrightarrow> plain p"
    using "2.prems"(2) by (simp add: plain_def)
  from 2 bl pp show ?case by auto
qed

lemma segments_plain: "list_all plain (segments p)"
  unfolding segments_def
  by (rule normalizeArray_elems) (auto simp: list_all_iff dest: split_slash_elems)

lemma join_slash_cons: "join_slash (w # ws) = w @ (if ws = [] then [] else CHR ''/'' # join_slash ws)"
  by (cases ws) auto

lemma join_slash_snoc: "R \<noteq> [] \<Longrightarrow> join_slash (R @ [n]) = join_slash R @ CHR ''/'' # n"
  by (induction R rule: join_slash.induct) auto

lemma split_join_slash:
  "ys \<noteq> [] \<Longrightarrow> split_slash (join_slash ys) = concat (map split_slash ys)"
  by (induction ys rule: join_slash.induct) (auto simp: split_slash_append)

lemma concat_split_plain:
  "list_all plain R \<Longrightarrow> concat (map split_slash R) = R"
  by (induction R) (auto simp: plain_def split_slash_no_slash)

lemma join_slash_plain_last:
  "R \<noteq> [] \<Longrightarrow> list_all plain R \<Longrightarrow> join_slash R \<noteq> [] \<and> last (join_slash R) \<noteq> CHR ''/''"
proof (induction R rule: join_slash.induct)
  case 1
  then show ?case by simp
next
  case (2 w)
  then have w: "w \<noteq> []" "CHR ''/'' \<notin> set w" by (auto simp: plain_def)
  then have "last w \<noteq> CHR ''/''" by (metis last_in_set)
  with w show ?case by simp
next
  case (3 w v ws)
  then show ?case by auto
qed

lemma isAbsolute_cons: "isAbsolute p \<Longrightarrow> \<exists>r. p = CHR ''/'' # r"
  by (cases p) (auto simp: isAbsolute_def)

lemma path_normalize_abs:
  "isAbsolute p \<Longrightarrow>
   path_normalize p =
     CHR ''/'' # join_slash (segments p) @ (if segments p \<noteq> [] \<and> last p = CHR ''/'' then ''/'' else [])"
proof -
  assume a: "isAbsolute p"
  then have ne: "p \<noteq> []" by (auto simp: isAbsolute_def)
  have j: "segments p \<noteq> [] \<Longrightarrow> join_slash (segments p) \<noteq> []"
    using join_slash_plain_last segments_plain by blast
  have j0: "segments p = [] \<Longrightarrow> join_slash (segments p) = []" by simp
  show ?thesis
    using a ne j j0 by (cases "segments p = []") (auto simp: path_normalize_def Let_def segments_def)
qed

lemma strip_canonical:
  assumes "list_all plain R" and "t = [] \<or> t = ''/''"
  shows "(let q = CHR ''/'' # join_slash R @ (if R \<noteq> [] then t else [])
          in if q = ''/'' then q else rev (dropWhile (\<lambda>c. c = CHR ''/'') (rev q)))
         = CHR ''/'' # join_slash R"
proof (cases "R = []")
  case True
  then show ?thesis by simp
next
  case False
  with assms(1) have l: "join_slash R \<noteq> []" "last (join_slash R) \<noteq> CHR ''/''"
    using join_slash_plain_last by blast+
  then obtain x c where x: "join_slash R = x @ [c]" "c \<noteq> CHR ''/''"
    by (metis append_butlast_last_id)
  show ?thesis using assms(2) False x by auto
qed

lemma fs_path_abs:
  assumes "isAbsolute p"
  shows "fs_path wd p = CHR ''/'' # join_slash (segments p)"
proof -
  have "fs_path wd p =
    (let q = CHR ''/'' # join_slash (segments p) @ (if segments p \<noteq> [] then (if last p = CHR ''/'' then ''/'' else []) else [])
     in if q = ''/'' then q else rev (dropWhile (\<lambda>c. c = CHR ''/'') (rev q)))"
    using assms by (simp add: fs_path_def path_normalize_abs)
  also have "\<dots> = CHR ''/'' # join_slash (segments p)"
    by (rule strip_canonical) (auto simp: segments_plain)
  finally show ?thesis .
qed

lemma segments_app:
  "segments (a @ CHR ''/'' # b) = normalizeArray (split_slash b) False (segments a)"
  by (simp add: segments_def split_slash_append normalizeArray_append)

lemma segments_app_plain: "plain n \<Longrightarrow> segments (a @ CHR ''/'' # n) = segments a @ [n]"
  by (simp add: segments_app split_slash_no_slash plain_def)

lemma segments_root: "segments ''/'' = []" "segments [] = []"
  by (simp_all add: segments_def)

lemma segments_canonical:
  assumes "list_all plain R"
  shows "segments (CHR ''/'' # join_slash R) = R"
proof (cases "R = []")
  case True
  then show ?thesis by (simp add: segments_def)
next
  case False
  have "segments ([] @ CHR ''/'' # join_slash R) = normalizeArray (split_slash (join_slash R)) False (segments [])"
    by (rule segments_app)
  then show ?thesis
    using False assms by (simp add: segments_root split_join_slash concat_split_plain normalizeArray_plain)
qed

lemma segments_trailing: "segments (p @ ''/'') = segments p"
  using segments_app [of p "[]"] by simp

lemma segments_normalize: "isAbsolute p \<Longrightarrow> segments (path_normalize p) = segments p"
  using segments_canonical [OF segments_plain, of p] segments_trailing [of "CHR ''/'' # join_slash (segments p)"]
  by (simp add: path_normalize_abs)

lemma isAbsolute_join_slash:
  "isAbsolute c \<Longrightarrow> isAbsolute (join_slash (filter (\<lambda>seg. seg \<noteq> []) (c # rest)))"
  by (cases c) (auto simp: isAbsolute_def join_slash_cons)

lemma isAbsolute_path_normalize: "isAbsolute p \<Longrightarrow> isAbsolute (path_normalize p)"
  by (simp add: path_normalize_abs) (simp add: isAbsolute_def)

lemma isAbsolute_path_join: "isAbsolute c \<Longrightarrow> isAbsolute (path_join (c # rest))"
  unfolding path_join_def by (intro isAbsolute_path_normalize isAbsolute_join_slash)

lemma isAbsolute_fs_path: "isAbsolute p \<Longrightarrow> isAbsolute (fs_path wd p)"
  by (simp add: fs_path_abs isAbsolute_def)

lemma fs_path_wd: "isAbsolute p \<Longrightarrow> fs_path wd p = fs_path wd' p"
  by (simp add: fs_path_abs)

lemma fs_path_idem: "isAbsolute p \<Longrightarrow> fs_path wd' (fs_path wd p) = fs_path wd p"
  using segments_canonical [OF segments_plain, of p]
  by (simp add: fs_path_abs [of "CHR ''/'' # join_slash (segments p)"] fs_path_abs [of p] isAbsolute_def)

lemma segments_path_join: 
  "isAbsolute c \<Longrightarrow> segments (path_join (c # xs)) = segments (join_slash (filter (\<lambda>seg. seg \<noteq> []) (c # xs)))"
  unfolding path_join_def by (intro segments_normalize isAbsolute_join_slash)

lemma segments_path_join_snoc:
  assumes "isAbsolute c" "plain n"
  shows "segments (path_join (c # xs @ [n])) = segments (path_join (c # xs)) @ [n]"
proof -
  have c: "c \<noteq> []" using assms(1) by (auto simp: isAbsolute_def)
  have n: "n \<noteq> []" using assms(2) by (simp add: plain_def)
  have f: "filter (\<lambda>seg. seg \<noteq> []) (c # xs @ [n]) = (c # filter (\<lambda>seg. seg \<noteq> []) xs) @ [n]"
    using c n by simp
  have g: "filter (\<lambda>seg. seg \<noteq> []) (c # xs) = c # filter (\<lambda>seg. seg \<noteq> []) xs"
    using c by simp
  have "segments (path_join (c # xs @ [n]))
      = segments (join_slash ((c # filter (\<lambda>seg. seg \<noteq> []) xs) @ [n]))"
    using assms(1) by (simp only: segments_path_join f)
  also have "\<dots> = segments (join_slash (c # filter (\<lambda>seg. seg \<noteq> []) xs) @ CHR ''/'' # n)"
    by (subst join_slash_snoc) simp_all
  also have "\<dots> = segments (join_slash (c # filter (\<lambda>seg. seg \<noteq> []) xs)) @ [n]"
    using assms(2) by (rule segments_app_plain)
  also have "\<dots> = segments (path_join (c # xs)) @ [n]"
    using assms(1) by (simp only: segments_path_join g)
  finally show ?thesis .
qed

lemma canonical_child:
  "list_all plain R \<Longrightarrow> CHR ''/'' # join_slash (R @ [n]) = child_prefix (CHR ''/'' # join_slash R) @ n"
  using join_slash_plain_last [of R]
  by (cases "R = []") (auto simp: child_prefix_def join_slash_snoc)

lemma fs_path_join_snoc:
  assumes "isAbsolute c" "plain n"
  shows "fs_path wd (path_join (c # xs @ [n])) = child_prefix (fs_path wd (path_join (c # xs))) @ n"
  using assms isAbsolute_path_join [OF assms(1)] segments_plain [of "path_join (c # xs)"]
  by (simp add: fs_path_abs segments_path_join_snoc canonical_child del: join_slash.simps)

lemma fs_path_relative:
  assumes "isAbsolute wd" "plain n"
  shows "fs_path wd n = child_prefix (fs_path wd wd) @ n"
proof -
  have r: "\<not> isAbsolute n" using assms(2) by (cases n) (auto simp: plain_def isAbsolute_def)
  have a: "isAbsolute (wd @ CHR ''/'' # n)" using assms(1) by (cases wd) (auto simp: isAbsolute_def)
  have "fs_path wd n = fs_path wd (wd @ CHR ''/'' # n)"
    using r a by (simp add: fs_path_def)
  also have "\<dots> = CHR ''/'' # join_slash (segments wd @ [n])"
    using a assms(2) by (simp add: fs_path_abs segments_app_plain)
  also have "\<dots> = child_prefix (CHR ''/'' # join_slash (segments wd)) @ n"
    by (rule canonical_child) (rule segments_plain)
  also have "\<dots> = child_prefix (fs_path wd wd) @ n"
    using assms(1) by (simp add: fs_path_abs)
  finally show ?thesis .
qed







lemma plain_names [simp]:
  "plain ''private.pem''" "plain ''public.pem''" "plain ''package.json''"
  "plain ''development.json''" "plain ''production.json''" "plain ''config''" "plain ''keys''"
  "plain ''server.js''" "plain ''views''" "plain ''public''" "plain ''.gitignore''"
  by (simp_all add: plain_def)

lemma is_child_below: "plain n \<Longrightarrow> is_child d (child_prefix d @ n)"
  by (simp add: is_child_def is_under_def plain_def)

lemma parent_dir_child:
  assumes "d \<noteq> []" "CHR ''/'' \<notin> set n"
  shows "parent_dir (child_prefix d @ n) = d"
proof -
  have n: "dropWhile (\<lambda>c. c \<noteq> CHR ''/'') (rev n @ xs) = dropWhile (\<lambda>c. c \<noteq> CHR ''/'') xs" for xs
    using assms(2) by (intro dropWhile_append2) auto
  show ?thesis
  proof (cases "d = ''/''")
    case True
    then show ?thesis by (simp add: parent_dir_def child_prefix_def n)
  next
    case False
    then show ?thesis using assms(1) by (simp add: parent_dir_def child_prefix_def n)
  qed
qed

lemma fs_path_nested:
  assumes "isAbsolute wd" "plain m" "plain n"
  shows "fs_path w (path_join [wd, d, m, n]) =
         child_prefix (child_prefix (fs_path w (path_join [wd, d])) @ m) @ n"
  using fs_path_join_snoc [OF assms(1,3), of w "[d, m]"] fs_path_join_snoc [OF assms(1,2), of w "[d]"]
  by simp

lemma isAbsolute_nonempty: "isAbsolute p \<Longrightarrow> p \<noteq> []"
  by (auto simp: isAbsolute_def)

section \<open>File system, steps and handler\<close>

lemma emit_fields [simp]:
  "cwd (emit e s) = cwd s" "fs (emit e s) = fs s" "trace (emit e s) = trace s @ [e]"
  "rng_pos (emit e s) = rng_pos s" "exit_status (emit e s) = exit_status s"
  by (simp_all add: emit_def)

lemma fs_exists_cong: "cwd s' = cwd s \<Longrightarrow> fs s' = fs s \<Longrightarrow> fs_exists s' p = fs_exists s p"
  by (simp add: fs_exists_def)

lemma fs_exists_emit [simp]: "fs_exists (emit e s) p = fs_exists s p"
  by (simp add: fs_exists_def)

lemma node_at_emit [simp]: "node_at (emit e s) p = node_at s p"
  by (simp add: node_at_def)

lemma fs_exists_node_at: "fs_exists s p = (node_at s p \<noteq> None)"
  by (simp add: fs_exists_def node_at_def)



lemma map_of_write_file_same: "map_of (write_file p c f) p = Some (File c)"
  by (simp add: write_file_def)



lemma safeJSON_present:
  "fs_exists s file \<Longrightarrow>
   safeJSON E file obj s =
     (Called None,
      emit (ConsoleLog ('' * '' @ replace_first (cwd s @ ''/'') [] file @ '' already initialized.'')) s)"
  by (simp add: safeJSON_def console_log_def)

lemma safeJSON_absent:
  "\<not> fs_exists s file \<Longrightarrow>
   safeJSON E file obj s =
     (Called (output_json_err E file),
      emit (ConsoleLog ('' * Generated '' @ replace_first (cwd s @ ''/'') [] file))
        (snd (outputJSON E file obj s)))"
  by (simp add: safeJSON_def console_log_def outputJSON_def split: option.splits)

lemma outputJSON_failed:
  "output_json_err E file = Some e \<Longrightarrow>
   outputJSON E file obj s = (Some e, emit (OutputJSON file obj) s)"
  by (simp add: outputJSON_def)

lemma outputJSON_ok:
  "output_json_err E file = None \<Longrightarrow>
   outputJSON E file obj s =
     (None, (emit (OutputJSON file obj) s)\<lparr>fs := write_file (fs_path (cwd s) file) (Json obj) (fs s)\<rparr>)"
  by (simp add: outputJSON_def)

lemma safeCopy_present:
  "fs_exists s to \<Longrightarrow>
   safeCopy E from to s = (Called None, emit (ConsoleLog ('' * '' @ to @ '' already initialized.'')) s)"
  by (simp add: safeCopy_def console_log_def)

lemma safeCopy_absent:
  "\<not> fs_exists s to \<Longrightarrow>
   safeCopy E from to s =
     (Called (fst (copy E from to s)),
      emit (ConsoleLog ('' * Generated '' @ to)) (snd (copy E from to s)))"
  by (simp add: safeCopy_def console_log_def split: prod.splits)

lemma keys_present:
  "fs_exists s (keys_dir (cwd s0) c) \<Longrightarrow>
   keys E c s0 s = (Called None, emit (ConsoleLog '' * RSA key pair already initialized.'') s)"
  by (simp add: keys_def console_log_def)

lemma series_stops:
  "fst (t s) = Called (Some e) \<Longrightarrow> series (t # ts) s = t s"
  "fst (t s) = Exited \<Longrightarrow> series (t # ts) s = t s"
  "fst (t s) = Threw e \<Longrightarrow> series (t # ts) s = t s"
  by (cases "t s"; simp)+

lemma series_continues: "t s = (Called None, s') \<Longrightarrow> series (t # ts) s = series ts s'"
  by simp

lemma files_present:
  assumes "fs_exists s ''server.js''" "fs_exists s ''views''" "fs_exists s ''public''"
    "fs_exists s ''.gitignore''"
  shows "files E c s =
    (Called None,
     emit (ConsoleLog '' * .gitignore already initialized.'')
       (emit (ConsoleLog '' * public already initialized.'')
          (emit (ConsoleLog '' * views already initialized.'')
             (emit (ConsoleLog '' * server.js already initialized.'') s))))"
  using assms by (simp add: files_def safeCopy_present)

lemma started_fields [simp]:
  "cwd (started s) = cwd s" "fs (started s) = fs s" "exit_status (started s) = exit_status s"
  "rng_pos (started s) = rng_pos s + 40"
  "trace (started s) = trace s @ [CliBr, CliHeader ''Initializing your new Anvil Connect instance.'', CliBr,
                             RandomBytes 10, RandomBytes 10, RandomBytes 10, RandomBytes 10]"
  by (simp_all add: started_def)

lemma keys_cong: "cwd s' = cwd s \<Longrightarrow> keys E c s' = keys E c s"
  by (simp add: keys_def fun_eq_iff)

lemma development_eq:
  "development E c s0 =
     (safeJSON E (development_file (cwd s0) c)
        (development_config (toHex (draw E (rng_pos s0) 10)) (toHex (draw E (rng_pos s0 + 10) 10))),
      s0\<lparr>trace := trace s0 @ [RandomBytes 10, RandomBytes 10], rng_pos := rng_pos s0 + 20\<rparr>)"
  by (simp add: development_def randomBytes_def emit_def)

lemma production_eq:
  "production E c s0 =
     (safeJSON E (production_file (cwd s0) c)
        (production_config (toHex (draw E (rng_pos s0) 10)) (toHex (draw E (rng_pos s0 + 10) 10))),
      s0\<lparr>trace := trace s0 @ [RandomBytes 10, RandomBytes 10], rng_pos := rng_pos s0 + 20\<rparr>)"
  by (simp add: production_def randomBytes_def emit_def)

lemma registerInit_tasks:
  "registerInit E args fl s =
     finished
       (series
          [directory E \<lparr>data = args, flags = fl, dir = context_dir args\<rparr>,
           git E \<lparr>data = args, flags = fl, dir = context_dir args\<rparr>,
           safeJSON E (manifest_file (cwd s) \<lparr>data = args, flags = fl, dir = context_dir args\<rparr>)
             (manifest \<lparr>data = args, flags = fl, dir = context_dir args\<rparr>),
           safeJSON E (development_file (cwd s) \<lparr>data = args, flags = fl, dir = context_dir args\<rparr>)
             (development_config (toHex (draw E (rng_pos s) 10)) (toHex (draw E (rng_pos s + 10) 10))),
           safeJSON E (production_file (cwd s) \<lparr>data = args, flags = fl, dir = context_dir args\<rparr>)
             (production_config (toHex (draw E (rng_pos s + 20) 10)) (toHex (draw E (rng_pos s + 30) 10))),
           files E \<lparr>data = args, flags = fl, dir = context_dir args\<rparr>,
           keys E \<lparr>data = args, flags = fl, dir = context_dir args\<rparr> s]
          (started s))"
proof -
  have k: "keys E c (started s) = keys E c s" for c
    by (rule keys_cong) simp
  show ?thesis
    by (simp add: registerInit_def Let_def development_eq production_eq npm_def log_br_def
          log_header_def emit_def k [unfolded started_def] started_def add.assoc
          del: series.simps)
qed

lemma copy_failed:
  "fst (copy E from to s) \<noteq> None \<Longrightarrow> snd (copy E from to s) = emit (Copy from to) s"
  by (auto simp: copy_def split: option.splits if_splits)

lemma copy_trace: "trace (snd (copy E from to s)) = trace s @ [Copy from to]"
  by (auto simp: copy_def split: option.splits if_splits)

lemma isAbsolute_keys_dir: "isAbsolute wd \<Longrightarrow> isAbsolute (keys_dir wd c)"
  unfolding keys_dir_def by (rule isAbsolute_path_join)



lemma keys_private_write_failed:
  assumes "\<not> fs_exists s (keys_dir (cwd s0) c)"
    and "exec_result E ''openssl genrsa 2048'' = (None, pem)"
    and "output_file_err E (private_pem (cwd s0) c) = Some e"
  shows "keys E c s0 s =
    (Called (Some e),
     emit (OutputFile (private_pem (cwd s0) c) pem) (emit (Exec ''openssl genrsa 2048'') s))"
  using assms by (simp add: keys_def exec_def outputFile_def Let_def)


lemma keys_public_write_failed:
  assumes "\<not> fs_exists s (keys_dir (cwd s0) c)"
    and "exec_result E ''openssl genrsa 2048'' = (None, pem)"
    and "output_file_err E (private_pem (cwd s0) c) = None"
    and "exec_result E (''openssl rsa -in '' @ private_pem (cwd s0) c @ '' -pubout'') = (None, pub)"
    and "output_file_err E (public_pem (cwd s0) c) = Some e"
  shows "keys E c s0 s =
    (Called (Some e), emit (OutputFile (public_pem (cwd s0) c) pub) (private_written c s0 pem s))"
  using assms by (simp add: keys_def exec_def outputFile_def private_written_def Let_def)





lemma fs_path_manifest:
  "isAbsolute wd \<Longrightarrow>
   fs_path w (manifest_file wd c) = child_prefix (fs_path w (target_dir wd c)) @ ''package.json''"
  using fs_path_join_snoc [of wd "''package.json''" w "[dir c]"]
  by (simp add: manifest_file_def target_dir_def)

lemma isAbsolute_files:
  assumes "isAbsolute wd"
  shows "isAbsolute (target_dir wd c)" "isAbsolute (manifest_file wd c)"
    "isAbsolute (development_file wd c)" "isAbsolute (production_file wd c)"
  unfolding target_dir_def manifest_file_def development_file_def production_file_def
  by (rule isAbsolute_path_join [OF assms])+

lemma fs_exists_absolute:
  "isAbsolute p \<Longrightarrow> fs s' = fs s \<Longrightarrow> fs_exists s' p = fs_exists s p"
  by (simp add: fs_exists_def fs_path_wd [of p "cwd s'" "cwd s"])

lemma fs_exists_relative:
  "cwd s' = cwd s \<Longrightarrow> fs s' = fs s \<Longrightarrow> fs_exists s' p = fs_exists s p"
  by (simp add: fs_exists_def)

lemma populated_nonempty:
  assumes "isAbsolute (cwd s)" "populated s c"
  shows "children (fs_path (cwd s) (target_dir (cwd s) c)) (fs s) \<noteq> []"
proof -
  let ?P = "child_prefix (fs_path (cwd s) (target_dir (cwd s) c)) @ ''package.json''"
  have "map_of (fs s) ?P \<noteq> None"
    using assms by (simp add: populated_def fs_exists_def fs_path_manifest)
  then have "?P \<in> set (map fst (fs s))"
    by (metis map_of_eq_None_iff set_map)
  moreover have "is_child (fs_path (cwd s) (target_dir (cwd s) c)) ?P"
    by (rule is_child_below) simp
  ultimately have "?P \<in> set (children (fs_path (cwd s) (target_dir (cwd s) c)) (fs s))"
    by (simp add: children_def)
  then show ?thesis by auto
qed

lemma directory_nonempty:
  assumes "node_at s (target_dir (cwd s) c) = Some Dir"
    and "children (fs_path (cwd s) (target_dir (cwd s) c)) (fs s) \<noteq> []"
  shows "directory E c s =
    (case readdir_err E (target_dir (cwd s) c) of
       Some e \<Rightarrow> (Threw e, s)
     | None \<Rightarrow>
        if confirm_answer E then
          (case chdir_err E (target_dir (cwd s) c) of
             Some e \<Rightarrow>
               (Threw e,
                emit (Chdir (target_dir (cwd s) c))
                  (emit (Prompt ''This is not an empty directory. Are you sure you want to proceed?'') s))
           | None \<Rightarrow>
               (Called None,
                emit CliBr
                  ((emit (Chdir (target_dir (cwd s) c))
                     (emit (Prompt ''This is not an empty directory. Are you sure you want to proceed?'') s))
                   \<lparr>cwd := fs_path (cwd s) (target_dir (cwd s) c)\<rparr>)))
        else
          (Exited,
           process_exit None
             (emit (CliError ''ABORTED'')
                (emit CliBr
                   (emit (Prompt ''This is not an empty directory. Are you sure you want to proceed?'') s)))))"
  using assms
  by (simp add: directory_def Let_def fs_exists_def node_at_def readdirSync_def chdir_def
        log_br_def log_error_def split: option.splits)

lemma artifact_steps_present:
  assumes "fs_exists u mf" "fs_exists u df" "fs_exists u pf"
    and "fs_exists u ''server.js''" "fs_exists u ''views''" "fs_exists u ''public''"
    and "fs_exists u ''.gitignore''" "fs_exists u (keys_dir (cwd s0) c)"
  shows "series [safeJSON E mf mo, safeJSON E df dobj, safeJSON E pf po, files E c, keys E c s0] u =
    (Called None,
     u\<lparr>trace := trace u @
        [ConsoleLog ('' * '' @ replace_first (cwd u @ ''/'') [] mf @ '' already initialized.''),
         ConsoleLog ('' * '' @ replace_first (cwd u @ ''/'') [] df @ '' already initialized.''),
         ConsoleLog ('' * '' @ replace_first (cwd u @ ''/'') [] pf @ '' already initialized.''),
         ConsoleLog '' * server.js already initialized.'',
         ConsoleLog '' * views already initialized.'',
         ConsoleLog '' * public already initialized.'',
         ConsoleLog '' * .gitignore already initialized.'',
         ConsoleLog '' * RSA key pair already initialized.'']\<rparr>)"
  using assms
  by (simp add: safeJSON_present files_present keys_present)

lemma finished_called: "finished (Called err, s) = (Called err, emit (CliHeader ''DONE'') (emit CliBr s))"
  by (simp add: finished_def log_header_def log_br_def)

lemma finished_other [simp]: "finished (Exited, s) = (Exited, s)" "finished (Threw e, s) = (Threw e, s)"
  by (simp_all add: finished_def)

lemma process_exit_fields [simp]:
  "cwd (process_exit code s) = cwd s" "fs (process_exit code s) = fs s"
  "trace (process_exit code s) = trace s @ [Exit]"
  "exit_status (process_exit code s) = Some (case code of None \<Rightarrow> 0 | Some c \<Rightarrow> c)"
  by (simp_all add: process_exit_def)

lemma git_present:
  "fs_exists s (target_dir (cwd s) c) \<Longrightarrow>
   git E c s = (Called None, emit (CliLog '' * Git repository already initialized.'') s)"
  by (simp add: git_def cli_log_def)

lemma git_absent:
  "\<not> fs_exists s (target_dir (cwd s) c) \<Longrightarrow>
   git E c s =
     (Called (fst (exec_result E ''git init'')),
      emit (CliLog '' * Initialized git repository'') (emit (Exec ''git init'') s))"
  by (simp add: git_def cli_log_def exec_def split: prod.splits)

lemma entered_fields [simp]:
  "cwd (entered s c) = fs_path (cwd s) (target_dir (cwd s) c)"
  "fs (entered s c) = fs s"
  "exit_status (entered s c) = exit_status s"
  "trace (entered s c) =
     trace s @ [CliBr, CliHeader ''Initializing your new Anvil Connect instance.'', CliBr,
                RandomBytes 10, RandomBytes 10, RandomBytes 10, RandomBytes 10,
                Prompt ''This is not an empty directory. Are you sure you want to proceed?'',
                Chdir (target_dir (cwd s) c), CliBr]"
  by (simp_all add: entered_def)

lemma populated_directory:
  assumes "isAbsolute (cwd s)" "populated s c"
  shows "directory E c (started s) =
    (case readdir_err E (target_dir (cwd s) c) of
       Some e \<Rightarrow> (Threw e, started s)
     | None \<Rightarrow>
        if confirm_answer E then
          (case chdir_err E (target_dir (cwd s) c) of
             Some e \<Rightarrow>
               (Threw e,
                emit (Chdir (target_dir (cwd s) c))
                  (emit (Prompt ''This is not an empty directory. Are you sure you want to proceed?'')
                     (started s)))
           | None \<Rightarrow> (Called None, entered s c))
        else
          (Exited,
           process_exit None
             (emit (CliError ''ABORTED'')
                (emit CliBr
                   (emit (Prompt ''This is not an empty directory. Are you sure you want to proceed?'')
                      (started s))))))"
proof -
  have n: "node_at (started s) (target_dir (cwd (started s)) c) = Some Dir"
    using assms(2) by (simp add: populated_def node_at_def)
  have ch: "children (fs_path (cwd (started s)) (target_dir (cwd (started s)) c)) (fs (started s)) \<noteq> []"
    using populated_nonempty [OF assms] by simp
  have c: "cwd (started s) = cwd s" by simp
  show ?thesis
    unfolding entered_def using directory_nonempty [OF n ch, of E, unfolded c] .
qed

lemma populated_artifacts:
  assumes "isAbsolute (cwd s)" "populated s c"
    and "cwd u = fs_path (cwd s) (target_dir (cwd s) c)" "fs u = fs s"
  shows "series [safeJSON E (manifest_file (cwd s) c) mo, safeJSON E (development_file (cwd s) c) dobj,
                 safeJSON E (production_file (cwd s) c) po, files E c, keys E c s] u =
    (Called None, u\<lparr>trace := trace u @ map ConsoleLog (already_initialized_lines s c)\<rparr>)"
proof -
  note a = isAbsolute_files [OF assms(1), of c] isAbsolute_keys_dir [OF assms(1), of c]
  have e: "fs_exists u (manifest_file (cwd s) c)" "fs_exists u (development_file (cwd s) c)"
    "fs_exists u (production_file (cwd s) c)" "fs_exists u (keys_dir (cwd s) c)"
    using assms(2) a by (simp_all add: populated_def fs_exists_absolute [OF _ assms(4)])
  have i: "cwd u = cwd (in_target s c)" "fs u = fs (in_target s c)"
    using assms(3,4) by (simp_all add: in_target_def)
  have t: "fs_exists u ''server.js''" "fs_exists u ''views''" "fs_exists u ''public''"
    "fs_exists u ''.gitignore''"
    using assms(2) by (simp_all add: populated_def fs_exists_relative [OF i])
  show ?thesis
    unfolding artifact_steps_present [OF e(1,2,3) t e(4)]
    by (simp add: already_initialized_lines_def i(1))
qed

lemma console_output_map [simp]: "console_output (map ConsoleLog ms) = ms"
  by (induction ms) auto

lemma console_output_append [simp]:
  "console_output (xs @ ys) = console_output xs @ console_output ys"
  by (induction xs rule: console_output.induct) auto

lemma is_write_ConsoleLog [simp]: "list_all (\<lambda>ev. \<not> is_write ev) (map ConsoleLog ms)"
  by (induction ms) auto

lemma series_two:
  "t1 s = (Called None, s1) \<Longrightarrow> t2 s1 = (Called None, s2) \<Longrightarrow>
   series (t1 # t2 # ts) s = series ts s2"
  by simp

lemma series_second_fails:
  "t1 s = (Called None, s1) \<Longrightarrow> t2 s1 = (Called (Some e), s2) \<Longrightarrow>
   series (t1 # t2 # ts) s = (Called (Some e), s2)"
  by simp

lemma populated_rerun:
  assumes abs: "isAbsolute (cwd s)" and pop: "populated s c"
    and c: "c = \<lparr>data = args, flags = fl, dir = context_dir args\<rparr>"
  shows "fs (snd (registerInit E args fl s)) = fs s"
    and "list_all (\<lambda>ev. \<not> is_write ev) (new_events s (snd (registerInit E args fl s)))"
    and "console_output (new_events s (snd (registerInit E args fl s))) = [] \<or>
         console_output (new_events s (snd (registerInit E args fl s))) = already_initialized_lines s c"
    and "confirm_answer E \<and> readdir_err E (target_dir (cwd s) c) = None \<and>
         chdir_err E (target_dir (cwd s) c) = None \<and>
         (fs_exists (in_target s c) (target_dir (cwd (in_target s c)) c) \<or>
          fst (exec_result E ''git init'') = None) \<Longrightarrow>
         fst (registerInit E args fl s) = Called None \<and>
         console_output (new_events s (snd (registerInit E args fl s))) = already_initialized_lines s c"
proof -
  let ?r = "registerInit E args fl s"
  let ?T = "target_dir (cwd s) c"
  let ?P = "Prompt ''This is not an empty directory. Are you sure you want to proceed?''"
  let ?rest = "[safeJSON E (manifest_file (cwd s) c) (manifest c),
           safeJSON E (development_file (cwd s) c)
             (development_config (toHex (draw E (rng_pos s) 10)) (toHex (draw E (rng_pos s + 10) 10))),
           safeJSON E (production_file (cwd s) c)
             (production_config (toHex (draw E (rng_pos s + 20) 10)) (toHex (draw E (rng_pos s + 30) 10))),
           files E c, keys E c s]"
  have R: "?r = finished (series (directory E c # git E c # ?rest) (started s))"
    unfolding c by (rule registerInit_tasks)
  note D = populated_directory [OF abs pop, of E]
  have A: "\<And>u. cwd u = fs_path (cwd s) ?T \<Longrightarrow> fs u = fs s \<Longrightarrow>
      series ?rest u = (Called None, u\<lparr>trace := trace u @ map ConsoleLog (already_initialized_lines s c)\<rparr>)"
    by (rule populated_artifacts [OF abs pop])
  have G: "fs_exists (in_target s c) (target_dir (cwd (in_target s c)) c) =
           fs_exists (entered s c) (target_dir (cwd (entered s c)) c)"
    by (simp add: fs_exists_def in_target_def)
  consider
      (unreadable) e where "readdir_err E ?T = Some e"
    | (declined) "readdir_err E ?T = None" "\<not> confirm_answer E"
    | (no_chdir) e where "readdir_err E ?T = None" "confirm_answer E" "chdir_err E ?T = Some e"
    | (vcs_present) "readdir_err E ?T = None" "confirm_answer E" "chdir_err E ?T = None"
        "fs_exists (entered s c) (target_dir (cwd (entered s c)) c)"
    | (vcs_failed) e where "readdir_err E ?T = None" "confirm_answer E" "chdir_err E ?T = None"
        "\<not> fs_exists (entered s c) (target_dir (cwd (entered s c)) c)"
        "fst (exec_result E ''git init'') = Some e"
    | (vcs_done) "readdir_err E ?T = None" "confirm_answer E" "chdir_err E ?T = None"
        "\<not> fs_exists (entered s c) (target_dir (cwd (entered s c)) c)"
        "fst (exec_result E ''git init'') = None"
    by (cases "readdir_err E ?T"; cases "chdir_err E ?T"; cases "fst (exec_result E ''git init'')") auto
  then have
    "fs (snd ?r) = fs s \<and>
     list_all (\<lambda>ev. \<not> is_write ev) (new_events s (snd ?r)) \<and>
     (console_output (new_events s (snd ?r)) = [] \<or>
      console_output (new_events s (snd ?r)) = already_initialized_lines s c) \<and>
     (confirm_answer E \<and> readdir_err E ?T = None \<and> chdir_err E ?T = None \<and>
      (fs_exists (in_target s c) (target_dir (cwd (in_target s c)) c) \<or>
       fst (exec_result E ''git init'') = None) \<longrightarrow>
      fst ?r = Called None \<and>
      console_output (new_events s (snd ?r)) = already_initialized_lines s c)"
  proof cases
    case unreadable
    then have d: "directory E c (started s) = (Threw e, started s)" by (simp add: D)
    have r: "?r = (Threw e, started s)"
      unfolding R using series_stops(3) [of "directory E c" "started s" e] d by simp
    show ?thesis using unreadable by (simp add: r new_events_def)
  next
    case declined
    then have d: "directory E c (started s) =
        (Exited, process_exit None (emit (CliError ''ABORTED'') (emit CliBr (emit ?P (started s)))))"
      by (simp add: D)
    have r: "?r = (Exited, process_exit None (emit (CliError ''ABORTED'') (emit CliBr (emit ?P (started s)))))"
      unfolding R using series_stops(2) [of "directory E c" "started s"] d by simp
    show ?thesis using declined by (simp add: r new_events_def)
  next
    case no_chdir
    then have d: "directory E c (started s) = (Threw e, emit (Chdir ?T) (emit ?P (started s)))"
      by (simp add: D)
    have r: "?r = (Threw e, emit (Chdir ?T) (emit ?P (started s)))"
      unfolding R using series_stops(3) [of "directory E c" "started s" e] d by simp
    show ?thesis using no_chdir by (simp add: r new_events_def)
  next
    case vcs_present
    let ?u = "emit (CliLog '' * Git repository already initialized.'') (entered s c)"
    have g: "git E c (entered s c) = (Called None, ?u)"
      using vcs_present(4) by (rule git_present)
    have a: "series ?rest ?u = (Called None, ?u\<lparr>trace := trace ?u @ map ConsoleLog (already_initialized_lines s c)\<rparr>)"
      by (rule A) simp_all
    have d: "directory E c (started s) = (Called None, entered s c)"
      using vcs_present by (simp add: D)
    have r: "?r = finished (Called None, ?u\<lparr>trace := trace ?u @ map ConsoleLog (already_initialized_lines s c)\<rparr>)"
      unfolding R series_two [where ?t1.0 = "directory E c" and s = "started s" and ?t2.0 = "git E c", OF d g] a by (rule refl)
    show ?thesis by (simp add: r finished_called new_events_def)
  next
    case vcs_failed
    let ?u = "emit (CliLog '' * Initialized git repository'') (emit (Exec ''git init'') (entered s c))"
    have g: "git E c (entered s c) = (Called (Some e), ?u)"
      using git_absent [OF vcs_failed(4), of E] vcs_failed(5) by simp
    have d: "directory E c (started s) = (Called None, entered s c)"
      using vcs_failed by (simp add: D)
    have r: "?r = finished (Called (Some e), ?u)"
      unfolding R series_second_fails [where ?t1.0 = "directory E c" and s = "started s" and ?t2.0 = "git E c", OF d g] by (rule refl)
    have ng: "\<not> fs_exists (in_target s c) (target_dir (cwd (in_target s c)) c)"
      using vcs_failed(4) unfolding G .
    show ?thesis using vcs_failed(5) ng by (simp add: r finished_called new_events_def)
  next
    case vcs_done
    let ?u = "emit (CliLog '' * Initialized git repository'') (emit (Exec ''git init'') (entered s c))"
    have g: "git E c (entered s c) = (Called None, ?u)"
      using git_absent [OF vcs_done(4), of E] vcs_done(5) by simp
    have a: "series ?rest ?u = (Called None, ?u\<lparr>trace := trace ?u @ map ConsoleLog (already_initialized_lines s c)\<rparr>)"
      by (rule A) simp_all
    have d: "directory E c (started s) = (Called None, entered s c)"
      using vcs_done by (simp add: D)
    have r: "?r = finished (Called None, ?u\<lparr>trace := trace ?u @ map ConsoleLog (already_initialized_lines s c)\<rparr>)"
      unfolding R series_two [where ?t1.0 = "directory E c" and s = "started s" and ?t2.0 = "git E c", OF d g] a by (rule refl)
    show ?thesis by (simp add: r finished_called new_events_def)
  qed
  then show "fs (snd ?r) = fs s"
    and "list_all (\<lambda>ev. \<not> is_write ev) (new_events s (snd ?r))"
    and "console_output (new_events s (snd ?r)) = [] \<or>
         console_output (new_events s (snd ?r)) = already_initialized_lines s c"
    and "confirm_answer E \<and> readdir_err E (target_dir (cwd s) c) = None \<and>
         chdir_err E (target_dir (cwd s) c) = None \<and>
         (fs_exists (in_target s c) (target_dir (cwd (in_target s c)) c) \<or>
          fst (exec_result E ''git init'') = None) \<Longrightarrow>
         fst ?r = Called None \<and>
         console_output (new_events s (snd ?r)) = already_initialized_lines s c"
    by blast+
qed

lemma t1: "populated second_visit proj" by code_simp

lemma directory_empty:
  assumes "node_at s (target_dir (cwd s) c) = Some Dir"
    and "children (fs_path (cwd s) (target_dir (cwd s) c)) (fs s) = []"
    and "readdir_err E (target_dir (cwd s) c) = None"
  shows "directory E c s = (Called None, s)"
  using assms
  by (simp add: directory_def Let_def fs_exists_def node_at_def readdirSync_def)

lemma directory_absent:
  assumes "\<not> fs_exists s (target_dir (cwd s) c)"
  shows "directory E c s =
    (case mkdirp_err E (target_dir (cwd s) c) of
       Some e \<Rightarrow> (Called (Some e), emit (Mkdirp (target_dir (cwd s) c)) s)
     | None \<Rightarrow>
        (case chdir_err E (target_dir (cwd s) c) of
           Some e \<Rightarrow>
             (Threw e,
              emit (Chdir (target_dir (cwd s) c))
                ((emit (Mkdirp (target_dir (cwd s) c)) s)
                   \<lparr>fs := add_dirs (self_and_parents (fs_path (cwd s) (target_dir (cwd s) c))) (fs s)\<rparr>))
         | None \<Rightarrow>
             (Called None,
              (emit (Chdir (target_dir (cwd s) c))
                ((emit (Mkdirp (target_dir (cwd s) c)) s)
                   \<lparr>fs := add_dirs (self_and_parents (fs_path (cwd s) (target_dir (cwd s) c))) (fs s)\<rparr>))
              \<lparr>cwd := fs_path (cwd s) (target_dir (cwd s) c)\<rparr>)))"
  using assms
  by (simp add: directory_def Let_def mkdirp_def chdir_def split: option.splits)

lemma declined_run:
  assumes "node_at s (target_dir (cwd s) \<lparr>data = args, flags = fl, dir = context_dir args\<rparr>) = Some Dir"
    and "children (fs_path (cwd s) (target_dir (cwd s) \<lparr>data = args, flags = fl, dir = context_dir args\<rparr>))
           (fs s) \<noteq> []"
    and "readdir_err E (target_dir (cwd s) \<lparr>data = args, flags = fl, dir = context_dir args\<rparr>) = None"
    and "\<not> confirm_answer E"
  shows "registerInit E args fl s =
    (Exited,
     process_exit None
       (emit (CliError ''ABORTED'')
          (emit CliBr
             (emit (Prompt ''This is not an empty directory. Are you sure you want to proceed?'')
                (started s)))))"
proof -
  let ?c = "\<lparr>data = args, flags = fl, dir = context_dir args\<rparr>"
  have n: "node_at (started s) (target_dir (cwd (started s)) ?c) = Some Dir"
    using assms(1) by (simp add: node_at_def)
  have ch: "children (fs_path (cwd (started s)) (target_dir (cwd (started s)) ?c)) (fs (started s)) \<noteq> []"
    using assms(2) by simp
  have d: "directory E ?c (started s) =
    (Exited,
     process_exit None
       (emit (CliError ''ABORTED'')
          (emit CliBr
             (emit (Prompt ''This is not an empty directory. Are you sure you want to proceed?'')
                (started s)))))"
    using directory_nonempty [OF n ch, of E] assms(3,4) by simp
  show ?thesis
    unfolding registerInit_tasks
    using series_stops(2) [of "directory E ?c" "started s"] d by simp
qed

lemma safeJSON_written:
  assumes "\<not> fs_exists u file" "output_json_err E file = None"
  shows "fst (safeJSON E file obj u) = Called None"
    and "node_at (snd (safeJSON E file obj u)) file = Some (File (Json obj))"
  using assms
  by (simp_all add: safeJSON_absent outputJSON_ok node_at_def map_of_write_file_same)

lemma manifest_fields:
  "jget ''name'' (manifest c) = Some (JString (path_basename (dir c)))"
  "jget ''version'' (manifest c) = Some (JString ''0.0.0'')"
  "jget ''description'' (manifest c) = Some (JString ''Anvil Connect Deployment'')"
  "jget ''private'' (manifest c) = Some (JBool True)"
  "jget ''main'' (manifest c) = Some (JString ''server.js'')"
  "jget ''scripts'' (manifest c) = Some (JObject [(''start'', JString ''node server.js'')])"
  "jget ''engines'' (manifest c) = Some (JObject [(''node'', JString ''>=0.12.0'')])"
  "jget ''dependencies'' (manifest c) = Some (JObject [(''anvil-connect'', JString ''0.1.42'')])"
  by (simp_all add: manifest_def)

lemma manifest_keys:
  "\<exists>kvs. manifest c = JObject kvs \<and>
     map fst kvs = [''name'', ''version'', ''description'', ''private'', ''main'', ''scripts'',
                    ''engines'', ''dependencies'']"
  by (simp add: manifest_def)

lemma toHex_length: "length (toHex bs) = 2 * length bs"
  by (induction bs) (simp_all add: toHex_def)

lemma hex_digit_in: "hex_digit n \<in> set ''0123456789abcdef''"
proof -
  have "n mod 16 < length ''0123456789abcdef''" by simp
  then show ?thesis unfolding hex_digit_def by (rule nth_mem)
qed

lemma toHex_chars: "set (toHex bs) \<subseteq> set ''0123456789abcdef''"
  unfolding toHex_def using hex_digit_in by (induction bs) auto

lemma draw_length: "length (draw E k n) = n"
  by (simp add: draw_def)

lemma draw_nth: "j < n \<Longrightarrow> draw E k n ! j = random_byte E (k + j)"
  by (simp add: draw_def)

lemma config_secrets:
  "jget ''cookie_secret'' (development_config a b) = Some (JString a)"
  "jget ''session_secret'' (development_config a b) = Some (JString b)"
  "jget ''cookie_secret'' (production_config a b) = Some (JString a)"
  "jget ''session_secret'' (production_config a b) = Some (JString b)"
  by (simp_all add: development_config_def production_config_def)

lemma started_events:
  "new_events s (started s) =
     [CliBr, CliHeader ''Initializing your new Anvil Connect instance.'', CliBr,
      RandomBytes 10, RandomBytes 10, RandomBytes 10, RandomBytes 10]"
  by (simp add: new_events_def)

lemma artifact_directories:
  assumes "isAbsolute wd"
  shows "parent_dir (fs_path w (manifest_file wd c)) = fs_path w (target_dir wd c)"
    and "parent_dir (parent_dir (fs_path w (development_file wd c))) = fs_path w (target_dir wd c)"
    and "parent_dir (parent_dir (fs_path w (production_file wd c))) = fs_path w (target_dir wd c)"
    and "parent_dir (parent_dir (fs_path w (keys_dir wd c))) = fs_path w (target_dir wd c)"
proof -
  have t: "fs_path w (target_dir wd c) \<noteq> []"
    using isAbsolute_fs_path [OF isAbsolute_files(1) [OF assms], of w c] by (rule isAbsolute_nonempty)
  have c: "child_prefix (fs_path w (target_dir wd c)) @ ''config'' \<noteq> []" by simp
  show "parent_dir (fs_path w (manifest_file wd c)) = fs_path w (target_dir wd c)"
    using t by (simp add: fs_path_manifest [OF assms] parent_dir_child)
  show "parent_dir (parent_dir (fs_path w (development_file wd c))) = fs_path w (target_dir wd c)"
    unfolding development_file_def fs_path_nested [OF assms plain_names(6) plain_names(4)]
    using t by (simp add: parent_dir_child [OF c] parent_dir_child target_dir_def)
  show "parent_dir (parent_dir (fs_path w (production_file wd c))) = fs_path w (target_dir wd c)"
    unfolding production_file_def fs_path_nested [OF assms plain_names(6) plain_names(5)]
    using t by (simp add: parent_dir_child [OF c] parent_dir_child target_dir_def)
  show "parent_dir (parent_dir (fs_path w (keys_dir wd c))) = fs_path w (target_dir wd c)"
    unfolding keys_dir_def fs_path_nested [OF assms plain_names(6) plain_names(7)]
    using t by (simp add: parent_dir_child [OF c] parent_dir_child target_dir_def)
qed

lemma template_directory:
  assumes "isAbsolute wd" "fs_path wd wd = wd" "plain n"
  shows "\<not> isAbsolute n" "parent_dir (fs_path wd n) = wd"
proof -
  show "\<not> isAbsolute n" using assms(3) by (cases n) (auto simp: plain_def isAbsolute_def)
  show "parent_dir (fs_path wd n) = wd"
    using assms isAbsolute_nonempty [OF assms(1)]
    by (simp add: fs_path_relative parent_dir_child plain_def)
qed

lemma directory_completed:
  assumes "directory E c s = (Called None, s')"
  shows "s' = s \<or>
         (cwd s' = fs_path (cwd s) (target_dir (cwd s) c) \<and>
          Chdir (target_dir (cwd s) c) \<in> set (new_events s s'))"
  using assms
  by (auto simp: directory_def Let_def chdir_def mkdirp_def new_events_def log_br_def
      split: if_splits option.splits sum.splits)

lemma directory_completed_iff:
  assumes "directory E c s = (Called None, s')"
  shows "(cwd s' = fs_path (cwd s) (target_dir (cwd s) c)) =
         (Chdir (target_dir (cwd s) c) \<in> set (new_events s s') \<or>
          fs_path (cwd s) (target_dir (cwd s) c) = cwd s)"
  using directory_completed [OF assms] by (auto simp: new_events_def)

lemma directory_completed_cwd:
  assumes "directory E c s = (Called None, s')" "isAbsolute (cwd s)" "fs_path (cwd s) (cwd s) = cwd s"
  shows "isAbsolute (cwd s')" "fs_path (cwd s') (cwd s') = cwd s'"
proof -
  have a: "isAbsolute (target_dir (cwd s) c)" using assms(2) by (rule isAbsolute_files)
  from directory_completed [OF assms(1)]
  show "isAbsolute (cwd s')" using assms(2) isAbsolute_fs_path [OF a] by auto
  from directory_completed [OF assms(1)]
  show "fs_path (cwd s') (cwd s') = cwd s'" using assms(3) fs_path_idem [OF a] by auto
qed

lemma steps_keep_cwd:
  "cwd (snd (git E c u)) = cwd u"
  "cwd (snd (safeJSON E file obj u)) = cwd u"
  "cwd (snd (safeCopy E from to u)) = cwd u"
  by (auto simp: git_def cli_log_def exec_def safeJSON_def outputJSON_def console_log_def
      safeCopy_def copy_def Let_def split: option.splits prod.splits if_splits)

section \<open>A first run, task by task\<close>

lemma d1: "directory quiet tmp_proj (started at_root) = (Called None, after_directory)"
  by code_simp

lemma d2: "git quiet tmp_proj after_directory = (Called None, after_git)"
  by code_simp

lemma d3: "safeJSON quiet (manifest_file (cwd at_root) tmp_proj) (manifest tmp_proj) after_git = (Called None, after_manifest)"
  by code_simp

lemma d4: "safeJSON quiet (development_file (cwd at_root) tmp_proj) dev after_manifest
           = (Called None, after_development dev)"
  by code_simp

lemma d5: "safeJSON quiet (production_file (cwd at_root) tmp_proj) prd (after_development dev)
           = (Called None, after_production dev prd)"
  by code_simp

lemma d6: "files quiet tmp_proj (after_production dev prd) = (Called None, after_files dev prd)"
  by code_simp

lemma d7: "keys quiet tmp_proj at_root (after_files dev prd) = (Called None, after_keys dev prd)"
  by code_simp

lemma first_run:
  "registerInit quiet [''/tmp/proj''] [] at_root =
     (Called None,
      emit (CliHeader ''DONE'')
        (emit CliBr
           (after_keys (development_config (toHex (draw quiet 0 10)) (toHex (draw quiet 10 10)))
              (production_config (toHex (draw quiet 20 10)) (toHex (draw quiet 30 10))))))"
proof -
  have c: "\<lparr>data = [''/tmp/proj''], flags = [], dir = context_dir [''/tmp/proj'']\<rparr> = tmp_proj"
    by (simp add: tmp_proj_def context_dir_def)
  have r: "rng_pos at_root = 0" by (simp add: at_root_def)
  show ?thesis
    unfolding registerInit_tasks c r
    by (simp add: d1 d2 d3 d4 d5 d6 d7 finished_called)
qed

lemma first_run_nodes:
  "node_at (after_keys dev prd) ''/tmp/proj/package.json'' = Some (File (Json (manifest tmp_proj)))"
  "node_at (after_keys dev prd) ''/tmp/proj/config/development.json'' = Some (File (Json dev))"
  "node_at (after_keys dev prd) ''/tmp/proj/config/production.json'' = Some (File (Json prd))"
  by code_simp+

lemma basename_tmp_proj: "path_basename (context_dir [''/tmp/proj'']) = ''proj''"
  by code_simp

lemma quiet_secrets:
  "toHex (draw quiet 0 10) = ''030a11181f262d343b42''"
  "toHex (draw quiet 10 10) = ''4950575e656c737a8188''"
  by (simp_all add: toHex_def draw_def quiet_def hex_digit_def
        upt_rec [of _ "numeral _"] upt_rec [of "Suc _"] upt_rec [of 0])

section \<open>A run with the default target, task by task\<close>

lemma n1: "directory quiet here (started fresh) = (Called None, started fresh)"
  by code_simp

lemma n2: "git quiet here (started fresh) = (Called None, app_git)"
  by code_simp

lemma n3: "safeJSON quiet (manifest_file (cwd fresh) here) (manifest here) app_git = (Called None, app_manifest)"
  by code_simp


lemma n4: "safeJSON quiet (development_file (cwd fresh) here) dev app_manifest
           = (Called None, app_development dev)"
  by code_simp

lemma n5: "safeJSON quiet (production_file (cwd fresh) here) prd (app_development dev)
           = (Called None, app_production dev prd)"
  by code_simp

lemma n6: "files quiet here (app_production dev prd) = (Called None, app_files dev prd)"
  by code_simp

lemma n7: "keys quiet here fresh (app_files dev prd) = (Called None, app_keys dev prd)"
  by code_simp

lemma default_run:
  "registerInit quiet [] [] fresh =
     (Called None,
      emit (CliHeader ''DONE'')
        (emit CliBr
           (app_keys (development_config (toHex (draw quiet 0 10)) (toHex (draw quiet 10 10)))
              (production_config (toHex (draw quiet 20 10)) (toHex (draw quiet 30 10))))))"
proof -
  have c: "\<lparr>data = [], flags = [], dir = context_dir []\<rparr> = here"
    by (simp add: here_def context_dir_def)
  have r: "rng_pos fresh = 0" by (simp add: fresh_def)
  show ?thesis
    unfolding registerInit_tasks c r
    by (simp add: n1 n2 n3 n4 n5 n6 n7 finished_called)
qed

lemma default_run_nodes:
  "node_at (app_keys dev prd) ''/home/u/app/package.json'' = Some (File (Json (manifest here)))"
  "fs_path (cwd fresh) (target_dir (cwd fresh) here) = ''/home/u/app''"
  "path_basename ''/home/u/app'' = ''app''"
  "path_basename (dir here) = ''.''"
  by code_simp+

section \<open>Properties of the command\<close>

text \<open>
  C1. A step whose destination exists writes nothing and completes: the JSON
  primitive (manifest, development and production configuration), the copy
  primitive (templates) and the key step (tested on the key directory) return the
  state they were given with one already-initialized line logged. Consequently a run
  of the whole handler against a populated directory changes no file, attempts no
  write, and prints no line but the eight already-initialized lines, whatever the
  environment answers; it prints exactly those eight lines and completes when the
  user confirms and neither the directory step nor the VCS step ends the run.
\<close>

theorem existing_artifacts_are_never_overwritten:
  "(fs_exists s file \<longrightarrow>
      safeJSON E file obj s =
        (Called None,
         console_log ('' * '' @ replace_first (cwd s @ ''/'') [] file @ '' already initialized.'') s)) \<and>
   (fs_exists s to \<longrightarrow>
      safeCopy E from to s =
        (Called None, console_log ('' * '' @ to @ '' already initialized.'') s)) \<and>
   (fs_exists s (keys_dir (cwd s0) c) \<longrightarrow>
      keys E c s0 s = (Called None, console_log '' * RSA key pair already initialized.'' s)) \<and>
   (isAbsolute (cwd s) \<and> populated s \<lparr>data = args, flags = fl, dir = context_dir args\<rparr> \<longrightarrow>
      fs (snd (registerInit E args fl s)) = fs s \<and>
      list_all (\<lambda>ev. \<not> is_write ev) (new_events s (snd (registerInit E args fl s))) \<and>
      (console_output (new_events s (snd (registerInit E args fl s))) = [] \<or>
       console_output (new_events s (snd (registerInit E args fl s))) =
         already_initialized_lines s \<lparr>data = args, flags = fl, dir = context_dir args\<rparr>) \<and>
      (confirm_answer E \<and>
       readdir_err E (target_dir (cwd s) \<lparr>data = args, flags = fl, dir = context_dir args\<rparr>) = None \<and>
       chdir_err E (target_dir (cwd s) \<lparr>data = args, flags = fl, dir = context_dir args\<rparr>) = None \<and>
       (fs_exists (in_target s \<lparr>data = args, flags = fl, dir = context_dir args\<rparr>)
          (target_dir (cwd (in_target s \<lparr>data = args, flags = fl, dir = context_dir args\<rparr>))
             \<lparr>data = args, flags = fl, dir = context_dir args\<rparr>) \<or>
        fst (exec_result E ''git init'') = None) \<longrightarrow>
         fst (registerInit E args fl s) = Called None \<and>
         console_output (new_events s (snd (registerInit E args fl s))) =
           already_initialized_lines s \<lparr>data = args, flags = fl, dir = context_dir args\<rparr>))"
  using populated_rerun [OF _ _ refl, of s args fl E]
  by (simp add: safeJSON_present safeCopy_present keys_present console_log_def)

theorem existing_artifacts_are_never_overwritten_witness:
  "(fs_exists second_visit ''/home/u/proj/package.json'' \<and>
    safeJSON quiet ''/home/u/proj/package.json'' (manifest proj) second_visit =
      (Called None, console_log '' * proj/package.json already initialized.'' second_visit)) \<and>
   (fs_exists (in_target second_visit proj) ''server.js'' \<and>
    safeCopy quiet ''/opt/cli/lib/files/server.js'' ''server.js'' (in_target second_visit proj) =
      (Called None, console_log '' * server.js already initialized.'' (in_target second_visit proj))) \<and>
   (fs_exists second_visit ''/home/u/proj/config/keys'' \<and>
    keys quiet proj second_visit second_visit =
      (Called None, console_log '' * RSA key pair already initialized.'' second_visit)) \<and>
   (isAbsolute (cwd second_visit) \<and> populated second_visit proj \<and>
    fst (registerInit quiet [''proj''] [] second_visit) = Called None \<and>
    fs (snd (registerInit quiet [''proj''] [] second_visit)) = fs second_visit \<and>
    list_all (\<lambda>ev. \<not> is_write ev)
      (new_events second_visit (snd (registerInit quiet [''proj''] [] second_visit))) \<and>
    console_output (new_events second_visit (snd (registerInit quiet [''proj''] [] second_visit))) =
      ['' * package.json already initialized.'',
       '' * config/development.json already initialized.'',
       '' * config/production.json already initialized.'',
       '' * server.js already initialized.'',
       '' * views already initialized.'',
       '' * public already initialized.'',
       '' * .gitignore already initialized.'',
       '' * RSA key pair already initialized.''])"
proof -
  have c: "\<lparr>data = [''proj''], flags = [], dir = context_dir [''proj'']\<rparr> = proj"
    by (simp add: proj_def context_dir_def)
  have abs: "isAbsolute (cwd second_visit)" by code_simp
  have pop: "populated second_visit proj" by code_simp
  have h1: "fs_exists second_visit ''/home/u/proj/package.json''" by code_simp
  have m1: "replace_first (cwd second_visit @ ''/'') [] ''/home/u/proj/package.json'' = ''proj/package.json''"
    by code_simp
  have h2: "fs_exists (in_target second_visit proj) ''server.js''" by code_simp
  have kd: "keys_dir (cwd second_visit) proj = ''/home/u/proj/config/keys''" by code_simp
  have h3: "fs_exists second_visit ''/home/u/proj/config/keys''" by code_simp
  have lines: "already_initialized_lines second_visit proj =
      ['' * package.json already initialized.'',
       '' * config/development.json already initialized.'',
       '' * config/production.json already initialized.'',
       '' * server.js already initialized.'',
       '' * views already initialized.'',
       '' * public already initialized.'',
       '' * .gitignore already initialized.'',
       '' * RSA key pair already initialized.'']" by code_simp
  have go: "confirm_answer quiet" "readdir_err quiet (target_dir (cwd second_visit) proj) = None"
    "chdir_err quiet (target_dir (cwd second_visit) proj) = None"
    "fst (exec_result quiet ''git init'') = None"
    by (simp_all add: quiet_def)
  note t = existing_artifacts_are_never_overwritten
  note a = t [of second_visit "''/home/u/proj/package.json''" quiet "manifest proj", THEN conjunct1, rule_format, OF h1, unfolded m1]
  note b = t [of "in_target second_visit proj" _ quiet _ "''server.js''"
      "''/opt/cli/lib/files/server.js''",
      THEN conjunct2, THEN conjunct1, rule_format, OF h2]
  note k = t [of second_visit _ quiet _ _ _ second_visit proj,
      THEN conjunct2, THEN conjunct2, THEN conjunct1, unfolded kd, rule_format, OF h3]
  note r = t [of second_visit _ quiet _ _ _ _ _ "[''proj'']" "[]",
      THEN conjunct2, THEN conjunct2, THEN conjunct2, unfolded c, rule_format,
      OF conjI [OF abs pop], unfolded lines]
  show ?thesis
    using h1 h2 h3 abs pop a b k r go by simp
qed

text \<open>
  C2 at its failing input. Creating the target directory fails: the directory step
  passes the error to its callback and no later step runs, but the callback of the
  series drops the error and logs the DONE header all the same; nothing in the log
  mentions the error.
\<close>

theorem failed_run_logs_done:
  "fst (registerInit no_mkdir [''proj''] [] at_home) = Called (Some (SysError ''EACCES'')) \<and>
   new_events at_home (snd (registerInit no_mkdir [''proj''] [] at_home)) =
     [CliBr, CliHeader ''Initializing your new Anvil Connect instance.'', CliBr,
      RandomBytes 10, RandomBytes 10, RandomBytes 10, RandomBytes 10,
      Mkdirp ''/home/u/proj'', CliBr, CliHeader ''DONE'']"
proof -
  let ?c = "\<lparr>data = [''proj''], flags = [], dir = context_dir [''proj'']\<rparr>"
  have t: "target_dir (cwd (started at_home)) ?c = ''/home/u/proj''" by code_simp
  have a: "\<not> fs_exists at_home ''/home/u/proj''" by code_simp
  have a': "\<not> fs_exists (started at_home) (target_dir (cwd (started at_home)) ?c)"
    unfolding t using a by (simp add: fs_exists_def)
  have e: "mkdirp_err no_mkdir ''/home/u/proj'' = Some (SysError ''EACCES'')"
    by (simp add: no_mkdir_def)
  have d: "directory no_mkdir ?c (started at_home) =
           (Called (Some (SysError ''EACCES'')), emit (Mkdirp ''/home/u/proj'') (started at_home))"
    unfolding directory_absent [OF a'] t by (simp add: e)
  have r: "registerInit no_mkdir [''proj''] [] at_home =
           finished (Called (Some (SysError ''EACCES'')), emit (Mkdirp ''/home/u/proj'') (started at_home))"
    unfolding registerInit_tasks
    using series_stops(1) [of "directory no_mkdir ?c" "started at_home" "SysError ''EACCES''"] d
    by simp
  show ?thesis by (simp add: r finished_called new_events_def)
qed

text \<open>
  C3 at its failing input. The target \<^verbatim>\<open>proj\<close> exists and is empty: the directory
  step completes at once, without \<^verbatim>\<open>process.chdir\<close>. The working directory is
  still the one of the invocation, not the target, so the relative template
  destinations resolve outside of the target.
\<close>

theorem empty_target_is_not_entered:
  "node_at empty_target ''/home/u/proj'' = Some Dir \<and>
   children ''/home/u/proj'' (fs empty_target) = [] \<and>
   directory quiet proj empty_target = (Called None, empty_target) \<and>
   cwd empty_target = ''/home/u'' \<and>
   fs_path (cwd empty_target) (target_dir (cwd empty_target) proj) = ''/home/u/proj'' \<and>
   fs_path (cwd empty_target) ''server.js'' = ''/home/u/server.js''"
proof -
  have t: "target_dir (cwd empty_target) proj = ''/home/u/proj''" by code_simp
  have p: "fs_path (cwd empty_target) ''/home/u/proj'' = ''/home/u/proj''" by code_simp
  have n: "node_at empty_target ''/home/u/proj'' = Some Dir" by code_simp
  have ch: "children ''/home/u/proj'' (fs empty_target) = []" by code_simp
  have e: "readdir_err quiet ''/home/u/proj'' = None" by (simp add: quiet_def)
  have w: "cwd empty_target = ''/home/u''" by code_simp
  have q: "fs_path (cwd empty_target) ''server.js'' = ''/home/u/server.js''" by code_simp
  have d: "directory quiet proj empty_target = (Called None, empty_target)"
    by (rule directory_empty) (simp_all add: t p n ch e)
  have tp: "fs_path (cwd empty_target) (target_dir (cwd empty_target) proj) = ''/home/u/proj''"
    by (simp only: t p)
  show ?thesis using n ch d w q tp by blast
qed

text \<open>
  C4 at its failing inputs. The VCS step tests the path
  \<^verbatim>\<open>path.join(process.cwd(), context.dir)\<close>, not a metadata directory in it. With the
  default target \<^verbatim>\<open>.\<close> that path is the working directory itself, which exists: the
  step logs that the repository is already initialized and runs no child process,
  although there is no \<^verbatim>\<open>.git\<close> directory. In a working directory that holds a
  \<^verbatim>\<open>.git\<close> directory, with target \<^verbatim>\<open>proj\<close>, the tested path does not exist and
  \<^verbatim>\<open>git init\<close> is run.
\<close>

theorem git_step_tests_the_target_path:
  "fs_exists fresh ''.git'' = False \<and>
   git quiet here fresh = (Called None, cli_log '' * Git repository already initialized.'' fresh) \<and>
   fs_exists cloned ''.git'' \<and> node_at cloned ''/home/u/proj/.git'' = Some Dir \<and>
   fst (git quiet proj cloned) = Called None \<and>
   new_events cloned (snd (git quiet proj cloned)) =
     [Exec ''git init'', CliLog '' * Initialized git repository'']"
proof -
  have a: "fs_exists fresh ''.git'' = False" by code_simp
  have b: "fs_exists fresh (target_dir (cwd fresh) here)" by code_simp
  have c: "fs_exists cloned ''.git''" by code_simp
  have c': "node_at cloned ''/home/u/proj/.git'' = Some Dir" by code_simp
  have d: "\<not> fs_exists cloned (target_dir (cwd cloned) proj)" by code_simp
  have e: "fst (exec_result quiet ''git init'') = None" by (simp add: quiet_def)
  show ?thesis
    using a c c' by (simp add: git_present [OF b] git_absent [OF d] cli_log_def new_events_def e)
qed

text \<open>
  C5, as amended. When the target directory exists and is not empty and the user
  declines the prompt, the directory step logs a blank line and the error ABORTED
  and calls \<^verbatim>\<open>process.exit()\<close> without a status: the process ends with exit
  status 0. No later step runs (the run adds no event after the exit, and the DONE
  header is not logged) and the file system and working directory are unchanged.
\<close>

theorem declining_the_prompt_ends_the_process:
  "node_at s (target_dir (cwd s) \<lparr>data = args, flags = fl, dir = context_dir args\<rparr>) = Some Dir \<and>
   children (fs_path (cwd s) (target_dir (cwd s) \<lparr>data = args, flags = fl, dir = context_dir args\<rparr>))
     (fs s) \<noteq> [] \<and>
   readdir_err E (target_dir (cwd s) \<lparr>data = args, flags = fl, dir = context_dir args\<rparr>) = None \<and>
   \<not> confirm_answer E \<longrightarrow>
     fst (registerInit E args fl s) = Exited \<and>
     new_events s (snd (registerInit E args fl s)) =
       [CliBr, CliHeader ''Initializing your new Anvil Connect instance.'', CliBr,
        RandomBytes 10, RandomBytes 10, RandomBytes 10, RandomBytes 10,
        Prompt ''This is not an empty directory. Are you sure you want to proceed?'',
        CliBr, CliError ''ABORTED'', Exit] \<and>
     exit_status (snd (registerInit E args fl s)) = Some 0 \<and>
     fs (snd (registerInit E args fl s)) = fs s \<and>
     cwd (snd (registerInit E args fl s)) = cwd s"
proof (intro impI, elim conjE)
  assume a: "node_at s (target_dir (cwd s) \<lparr>data = args, flags = fl, dir = context_dir args\<rparr>) = Some Dir"
    "children (fs_path (cwd s) (target_dir (cwd s) \<lparr>data = args, flags = fl, dir = context_dir args\<rparr>))
       (fs s) \<noteq> []"
    "readdir_err E (target_dir (cwd s) \<lparr>data = args, flags = fl, dir = context_dir args\<rparr>) = None"
    "\<not> confirm_answer E"
  show "fst (registerInit E args fl s) = Exited \<and>
     new_events s (snd (registerInit E args fl s)) =
       [CliBr, CliHeader ''Initializing your new Anvil Connect instance.'', CliBr,
        RandomBytes 10, RandomBytes 10, RandomBytes 10, RandomBytes 10,
        Prompt ''This is not an empty directory. Are you sure you want to proceed?'',
        CliBr, CliError ''ABORTED'', Exit] \<and>
     exit_status (snd (registerInit E args fl s)) = Some 0 \<and>
     fs (snd (registerInit E args fl s)) = fs s \<and>
     cwd (snd (registerInit E args fl s)) = cwd s"
    unfolding declined_run [OF a] by (simp add: new_events_def)
qed

theorem declining_the_prompt_ends_the_process_witness:
  "node_at second_visit ''/home/u/proj'' = Some Dir \<and>
   children ''/home/u/proj'' (fs second_visit) \<noteq> [] \<and>
   \<not> confirm_answer declining \<and>
   fst (registerInit declining [''proj''] [] second_visit) = Exited \<and>
   new_events second_visit (snd (registerInit declining [''proj''] [] second_visit)) =
     [CliBr, CliHeader ''Initializing your new Anvil Connect instance.'', CliBr,
      RandomBytes 10, RandomBytes 10, RandomBytes 10, RandomBytes 10,
      Prompt ''This is not an empty directory. Are you sure you want to proceed?'',
      CliBr, CliError ''ABORTED'', Exit] \<and>
   exit_status (snd (registerInit declining [''proj''] [] second_visit)) = Some 0 \<and>
   fs (snd (registerInit declining [''proj''] [] second_visit)) = fs second_visit \<and>
   cwd (snd (registerInit declining [''proj''] [] second_visit)) = cwd second_visit"
proof -
  have t: "target_dir (cwd second_visit) \<lparr>data = [''proj''], flags = [], dir = context_dir [''proj'']\<rparr>
           = ''/home/u/proj''" by code_simp
  have p: "fs_path (cwd second_visit) ''/home/u/proj'' = ''/home/u/proj''" by code_simp
  have n: "node_at second_visit ''/home/u/proj'' = Some Dir" by code_simp
  have ch: "children ''/home/u/proj'' (fs second_visit) \<noteq> []" by code_simp
  have e: "readdir_err declining ''/home/u/proj'' = None" "\<not> confirm_answer declining"
    by (simp_all add: declining_def quiet_def)
  show ?thesis
    using n ch e(2)
      declining_the_prompt_ends_the_process [of second_visit "[''proj'']" "[]" declining,
        unfolded t p, rule_format, OF conjI [OF n conjI [OF ch conjI [OF e]]]]
    by simp
qed

text \<open>
  C5 as stated fails on the exit status: after the user declines, the process has
  ended with status 0, not with a non-zero status.
\<close>

theorem declined_exit_status_is_zero:
  "node_at cloned ''.'' = Some Dir \<and> children ''/home/u/proj'' (fs cloned) \<noteq> [] \<and>
   \<not> confirm_answer declining \<and>
   fst (registerInit declining [] [] cloned) = Exited \<and>
   exit_status (snd (registerInit declining [] [] cloned)) = Some 0"
proof -
  have t: "target_dir (cwd cloned) \<lparr>data = [], flags = [], dir = context_dir []\<rparr> = ''/home/u/proj''"
    by code_simp
  have p: "fs_path (cwd cloned) ''/home/u/proj'' = ''/home/u/proj''" by code_simp
  have n: "node_at cloned ''/home/u/proj'' = Some Dir" by code_simp
  have n': "node_at cloned ''.'' = Some Dir" by code_simp
  have ch: "children ''/home/u/proj'' (fs cloned) \<noteq> []" by code_simp
  have e: "readdir_err declining ''/home/u/proj'' = None" "\<not> confirm_answer declining"
    by (simp_all add: declining_def quiet_def)
  have r: "registerInit declining [] [] cloned =
    (Exited,
     process_exit None
       (emit (CliError ''ABORTED'')
          (emit CliBr
             (emit (Prompt ''This is not an empty directory. Are you sure you want to proceed?'')
                (started cloned)))))"
    by (rule declined_run) (simp_all add: t p n ch e)
  show ?thesis
    using n' ch e(2) by (simp add: r)
qed

text \<open>
  C6, as amended. In every run the handler draws four times ten bytes from the
  random source while it builds its tasks, before the first step runs and whether or
  not a configuration file will be written: the draws are the positions 0-9, 10-19,
  20-29 and 30-39 after the position of the source at invocation. The development
  document handed to the write-if-absent primitive has the hexadecimal encoding of
  the first draw as cookie secret and of the second as session secret, the
  production document those of the third and the fourth. Each encoding has 20
  characters, all hexadecimal digits. When the file is absent and the write
  succeeds, the file holds the document.
\<close>

theorem secrets_are_drawn_when_the_tasks_are_built:
  "registerInit E args fl s =
     finished
       (series
          [directory E \<lparr>data = args, flags = fl, dir = context_dir args\<rparr>,
           git E \<lparr>data = args, flags = fl, dir = context_dir args\<rparr>,
           safeJSON E (manifest_file (cwd s) \<lparr>data = args, flags = fl, dir = context_dir args\<rparr>)
             (manifest \<lparr>data = args, flags = fl, dir = context_dir args\<rparr>),
           safeJSON E (development_file (cwd s) \<lparr>data = args, flags = fl, dir = context_dir args\<rparr>)
             (development_config (toHex (draw E (rng_pos s) 10)) (toHex (draw E (rng_pos s + 10) 10))),
           safeJSON E (production_file (cwd s) \<lparr>data = args, flags = fl, dir = context_dir args\<rparr>)
             (production_config (toHex (draw E (rng_pos s + 20) 10)) (toHex (draw E (rng_pos s + 30) 10))),
           files E \<lparr>data = args, flags = fl, dir = context_dir args\<rparr>,
           keys E \<lparr>data = args, flags = fl, dir = context_dir args\<rparr> s]
          (started s)) \<and>
   new_events s (started s) =
     [CliBr, CliHeader ''Initializing your new Anvil Connect instance.'', CliBr,
      RandomBytes 10, RandomBytes 10, RandomBytes 10, RandomBytes 10] \<and>
   rng_pos (started s) = rng_pos s + 40 \<and>
   jget ''cookie_secret'' (development_config a b) = Some (JString a) \<and>
   jget ''session_secret'' (development_config a b) = Some (JString b) \<and>
   jget ''cookie_secret'' (production_config a b) = Some (JString a) \<and>
   jget ''session_secret'' (production_config a b) = Some (JString b) \<and>
   length (draw E k 10) = 10 \<and>
   (\<forall>j<10. draw E k 10 ! j = random_byte E (k + j)) \<and>
   length (toHex (draw E k 10)) = 20 \<and>
   set (toHex (draw E k 10)) \<subseteq> set ''0123456789abcdef'' \<and>
   (\<not> fs_exists u file \<and> output_json_err E file = None \<longrightarrow>
      fst (safeJSON E file obj u) = Called None \<and>
      node_at (snd (safeJSON E file obj u)) file = Some (File (Json obj)))"
proof (intro conjI)
  show "registerInit E args fl s =
     finished
       (series
          [directory E \<lparr>data = args, flags = fl, dir = context_dir args\<rparr>,
           git E \<lparr>data = args, flags = fl, dir = context_dir args\<rparr>,
           safeJSON E (manifest_file (cwd s) \<lparr>data = args, flags = fl, dir = context_dir args\<rparr>)
             (manifest \<lparr>data = args, flags = fl, dir = context_dir args\<rparr>),
           safeJSON E (development_file (cwd s) \<lparr>data = args, flags = fl, dir = context_dir args\<rparr>)
             (development_config (toHex (draw E (rng_pos s) 10)) (toHex (draw E (rng_pos s + 10) 10))),
           safeJSON E (production_file (cwd s) \<lparr>data = args, flags = fl, dir = context_dir args\<rparr>)
             (production_config (toHex (draw E (rng_pos s + 20) 10)) (toHex (draw E (rng_pos s + 30) 10))),
           files E \<lparr>data = args, flags = fl, dir = context_dir args\<rparr>,
           keys E \<lparr>data = args, flags = fl, dir = context_dir args\<rparr> s]
          (started s))"
    by (rule registerInit_tasks)
  show "set (toHex (draw E k 10)) \<subseteq> set ''0123456789abcdef''"
    by (rule toHex_chars)
  show "new_events s (started s) =
     [CliBr, CliHeader ''Initializing your new Anvil Connect instance.'', CliBr,
      RandomBytes 10, RandomBytes 10, RandomBytes 10, RandomBytes 10]"
    by (rule started_events)
qed (simp_all add: config_secrets draw_length draw_nth toHex_length safeJSON_written)

theorem secrets_are_drawn_when_the_tasks_are_built_witness:
  "\<not> fs_exists after_manifest ''/tmp/proj/config/development.json'' \<and>
   output_json_err quiet ''/tmp/proj/config/development.json'' = None \<and>
   fst (safeJSON quiet ''/tmp/proj/config/development.json''
          (development_config ''030a11181f262d343b42'' ''4950575e656c737a8188'') after_manifest) =
     Called None \<and>
   node_at (snd (safeJSON quiet ''/tmp/proj/config/development.json''
                   (development_config ''030a11181f262d343b42'' ''4950575e656c737a8188'') after_manifest))
     ''/tmp/proj/config/development.json'' =
     Some (File (Json (development_config ''030a11181f262d343b42'' ''4950575e656c737a8188''))) \<and>
   (3::nat) < 10 \<and> draw quiet 0 10 ! 3 = random_byte quiet 3 \<and>
   length (toHex (draw quiet 0 10)) = 20 \<and>
   toHex (draw quiet 0 10) = ''030a11181f262d343b42''"
proof -
  have a: "\<not> fs_exists after_manifest ''/tmp/proj/config/development.json''" by code_simp
  have e: "output_json_err quiet ''/tmp/proj/config/development.json'' = None"
    by (simp add: quiet_def)
  note t = secrets_are_drawn_when_the_tasks_are_built
    [of quiet _ _ _ _ _ 0 after_manifest "''/tmp/proj/config/development.json''"
       "development_config ''030a11181f262d343b42'' ''4950575e656c737a8188''"]
  note d = t [THEN conjunct2, THEN conjunct2, THEN conjunct2, THEN conjunct2, THEN conjunct2,
      THEN conjunct2, THEN conjunct2, THEN conjunct2, THEN conjunct1, rule_format, of 3]
  note l = t [THEN conjunct2, THEN conjunct2, THEN conjunct2, THEN conjunct2, THEN conjunct2,
      THEN conjunct2, THEN conjunct2, THEN conjunct2, THEN conjunct2, THEN conjunct1]
  note w = t [THEN conjunct2, THEN conjunct2, THEN conjunct2, THEN conjunct2, THEN conjunct2,
      THEN conjunct2, THEN conjunct2, THEN conjunct2, THEN conjunct2, THEN conjunct2,
      THEN conjunct2, rule_format, OF conjI [OF a e]]
  have three: "(3::nat) < 10" by simp
  show ?thesis
    using a e w d [OF three] l quiet_secrets(1) by simp
qed

text \<open>
  C6 as stated fails on the time of the draws. In the run that initializes the
  missing directory \<^verbatim>\<open>/tmp/proj\<close>, the four draws are the first events after the
  header: they precede the creation of the directory, \<^verbatim>\<open>git init\<close> and the write
  of the manifest, and the development document that holds the first two draws is
  written as the fourteenth event.
\<close>

theorem secrets_are_drawn_before_the_first_step:
  "take 14 (new_events at_root (snd (registerInit quiet [''/tmp/proj''] [] at_root))) =
     [CliBr, CliHeader ''Initializing your new Anvil Connect instance.'', CliBr,
      RandomBytes 10, RandomBytes 10, RandomBytes 10, RandomBytes 10,
      Mkdirp ''/tmp/proj'', Chdir ''/tmp/proj'',
      Exec ''git init'', CliLog '' * Initialized git repository'',
      OutputJSON ''/tmp/proj/package.json'' (manifest tmp_proj),
      ConsoleLog '' * Generated package.json'',
      OutputJSON ''/tmp/proj/config/development.json''
        (development_config (toHex (draw quiet 0 10)) (toHex (draw quiet 10 10)))]"
proof -
  have "take 14 (new_events at_root (emit (CliHeader ''DONE'') (emit CliBr (after_keys dev prd)))) =
     [CliBr, CliHeader ''Initializing your new Anvil Connect instance.'', CliBr,
      RandomBytes 10, RandomBytes 10, RandomBytes 10, RandomBytes 10,
      Mkdirp ''/tmp/proj'', Chdir ''/tmp/proj'',
      Exec ''git init'', CliLog '' * Initialized git repository'',
      OutputJSON ''/tmp/proj/package.json'' (manifest tmp_proj),
      ConsoleLog '' * Generated package.json'',
      OutputJSON ''/tmp/proj/config/development.json'' dev]" for dev prd
    by code_simp
  then show ?thesis by (simp only: first_run snd_conv)
qed



text \<open>
  C8 at its failing input. The manifest step names the project
  \<^verbatim>\<open>path.basename(context.dir)\<close>, the base name of the argument as it was typed,
  not of the target directory \<^verbatim>\<open>path.join(process.cwd(), context.dir)\<close> in which
  the same step places the file. Run with no argument in the empty directory
  \<^verbatim>\<open>/home/u/app\<close>, the command completes and leaves
  \<^verbatim>\<open>/home/u/app/package.json\<close> with the name \<^verbatim>\<open>.\<close>, although the target
  directory is \<^verbatim>\<open>/home/u/app\<close>, whose base name is \<^verbatim>\<open>app\<close>. The other seven
  fields are the fixed ones. Run on the missing directory \<^verbatim>\<open>/tmp/proj\<close>, the
  command names the project \<^verbatim>\<open>proj\<close>.
\<close>

theorem default_target_names_the_manifest_dot:
  "context_dir [] = ''.'' \<and>
   cwd fresh = ''/home/u/app'' \<and>
   fs_path (cwd fresh) (target_dir (cwd fresh) \<lparr>data = [], flags = [], dir = context_dir []\<rparr>)
     = ''/home/u/app'' \<and>
   path_basename ''/home/u/app'' = ''app'' \<and>
   fst (registerInit quiet [] [] fresh) = Called None \<and>
   node_at (snd (registerInit quiet [] [] fresh)) ''/home/u/app/package.json'' =
     Some (File (Json
       (JObject
        [(''name'', JString ''.''),
         (''version'', JString ''0.0.0''),
         (''description'', JString ''Anvil Connect Deployment''),
         (''private'', JBool True),
         (''main'', JString ''server.js''),
         (''scripts'', JObject [(''start'', JString ''node server.js'')]),
         (''engines'', JObject [(''node'', JString ''>=0.12.0'')]),
         (''dependencies'', JObject [(''anvil-connect'', JString ''0.1.42'')])]))) \<and>
   fst (registerInit quiet [''/tmp/proj''] [] at_root) = Called None \<and>
   node_at (snd (registerInit quiet [''/tmp/proj''] [] at_root)) ''/tmp/proj/package.json'' =
     Some (File (Json
       (JObject
        [(''name'', JString ''proj''),
         (''version'', JString ''0.0.0''),
         (''description'', JString ''Anvil Connect Deployment''),
         (''private'', JBool True),
         (''main'', JString ''server.js''),
         (''scripts'', JObject [(''start'', JString ''node server.js'')]),
         (''engines'', JObject [(''node'', JString ''>=0.12.0'')]),
         (''dependencies'', JObject [(''anvil-connect'', JString ''0.1.42'')])])))"
proof -
  have c: "\<lparr>data = [], flags = [], dir = context_dir []\<rparr> = here"
    by (simp add: here_def context_dir_def)
  have d: "context_dir [] = ''.''" by (simp add: context_dir_def)
  have w: "cwd fresh = ''/home/u/app''" by (simp add: fresh_def)
  have m: "manifest here =
      JObject
        [(''name'', JString ''.''),
         (''version'', JString ''0.0.0''),
         (''description'', JString ''Anvil Connect Deployment''),
         (''private'', JBool True),
         (''main'', JString ''server.js''),
         (''scripts'', JObject [(''start'', JString ''node server.js'')]),
         (''engines'', JObject [(''node'', JString ''>=0.12.0'')]),
         (''dependencies'', JObject [(''anvil-connect'', JString ''0.1.42'')])]"
    by code_simp
  have m': "manifest tmp_proj =
      JObject
        [(''name'', JString ''proj''),
         (''version'', JString ''0.0.0''),
         (''description'', JString ''Anvil Connect Deployment''),
         (''private'', JBool True),
         (''main'', JString ''server.js''),
         (''scripts'', JObject [(''start'', JString ''node server.js'')]),
         (''engines'', JObject [(''node'', JString ''>=0.12.0'')]),
         (''dependencies'', JObject [(''anvil-connect'', JString ''0.1.42'')])]"
    by code_simp
  have o: "fst (registerInit quiet [] [] fresh) = Called None"
    by (simp add: default_run)
  have n: "node_at (snd (registerInit quiet [] [] fresh)) ''/home/u/app/package.json'' =
      Some (File (Json (manifest here)))"
    by (simp add: default_run default_run_nodes(1))
  have o': "fst (registerInit quiet [''/tmp/proj''] [] at_root) = Called None"
    by (simp add: first_run)
  have n': "node_at (snd (registerInit quiet [''/tmp/proj''] [] at_root)) ''/tmp/proj/package.json'' =
      Some (File (Json (manifest tmp_proj)))"
    by (simp add: first_run first_run_nodes(1))
  show ?thesis
    unfolding c
    using d w default_run_nodes(2,3) o n [unfolded m] o' n' [unfolded m'] by blast
qed

text \<open>
  C9, as amended. The manifest, the configuration files and the key directory have
  absolute paths computed from the working directory of the invocation, and lie in
  the target directory (the configuration files and the key directory in its
  \<^verbatim>\<open>config\<close> subdirectory) whatever the working directory is later. The template
  destinations are relative and resolve in the working directory the directory step
  leaves, which the git, JSON and copy steps do not change. When the directory step
  completes, that working directory is the target exactly when the step changed the
  working directory or the target already was the working directory of the
  invocation (as with the default target \<^verbatim>\<open>.\<close>).
\<close>

theorem artifact_families_meet_iff_target_is_working_directory:
  "isAbsolute (cwd s) \<and> fs_path (cwd s) (cwd s) = cwd s \<and> directory E c s = (Called None, s') \<longrightarrow>
     isAbsolute (manifest_file (cwd s) c) \<and>
     isAbsolute (development_file (cwd s) c) \<and>
     isAbsolute (production_file (cwd s) c) \<and>
     isAbsolute (keys_dir (cwd s) c) \<and>
     parent_dir (fs_path (cwd s') (manifest_file (cwd s) c)) = fs_path (cwd s) (target_dir (cwd s) c) \<and>
     parent_dir (parent_dir (fs_path (cwd s') (development_file (cwd s) c))) =
       fs_path (cwd s) (target_dir (cwd s) c) \<and>
     parent_dir (parent_dir (fs_path (cwd s') (production_file (cwd s) c))) =
       fs_path (cwd s) (target_dir (cwd s) c) \<and>
     parent_dir (parent_dir (fs_path (cwd s') (keys_dir (cwd s) c))) =
       fs_path (cwd s) (target_dir (cwd s) c) \<and>
     list_all (\<lambda>n. \<not> isAbsolute n \<and> parent_dir (fs_path (cwd s') n) = cwd s')
       [''server.js'', ''views'', ''public'', ''.gitignore''] \<and>
     cwd (snd (git E c u)) = cwd u \<and>
     cwd (snd (safeJSON E file obj u)) = cwd u \<and>
     cwd (snd (safeCopy E from to u)) = cwd u \<and>
     ((cwd s' = fs_path (cwd s) (target_dir (cwd s) c)) =
      (Chdir (target_dir (cwd s) c) \<in> set (new_events s s') \<or>
       fs_path (cwd s) (target_dir (cwd s) c) = cwd s))"
proof (intro impI, elim conjE)
  assume a: "isAbsolute (cwd s)" and k: "fs_path (cwd s) (cwd s) = cwd s"
    and d: "directory E c s = (Called None, s')"
  note w = directory_completed_cwd [OF d a k]
  note f = fs_path_wd [of _ "cwd s'" "cwd s"]
  show "isAbsolute (manifest_file (cwd s) c) \<and>
     isAbsolute (development_file (cwd s) c) \<and>
     isAbsolute (production_file (cwd s) c) \<and>
     isAbsolute (keys_dir (cwd s) c) \<and>
     parent_dir (fs_path (cwd s') (manifest_file (cwd s) c)) = fs_path (cwd s) (target_dir (cwd s) c) \<and>
     parent_dir (parent_dir (fs_path (cwd s') (development_file (cwd s) c))) =
       fs_path (cwd s) (target_dir (cwd s) c) \<and>
     parent_dir (parent_dir (fs_path (cwd s') (production_file (cwd s) c))) =
       fs_path (cwd s) (target_dir (cwd s) c) \<and>
     parent_dir (parent_dir (fs_path (cwd s') (keys_dir (cwd s) c))) =
       fs_path (cwd s) (target_dir (cwd s) c) \<and>
     list_all (\<lambda>n. \<not> isAbsolute n \<and> parent_dir (fs_path (cwd s') n) = cwd s')
       [''server.js'', ''views'', ''public'', ''.gitignore''] \<and>
     cwd (snd (git E c u)) = cwd u \<and>
     cwd (snd (safeJSON E file obj u)) = cwd u \<and>
     cwd (snd (safeCopy E from to u)) = cwd u \<and>
     ((cwd s' = fs_path (cwd s) (target_dir (cwd s) c)) =
      (Chdir (target_dir (cwd s) c) \<in> set (new_events s s') \<or>
       fs_path (cwd s) (target_dir (cwd s) c) = cwd s))"
  proof (intro conjI)
    show "(cwd s' = fs_path (cwd s) (target_dir (cwd s) c)) =
      (Chdir (target_dir (cwd s) c) \<in> set (new_events s s') \<or>
       fs_path (cwd s) (target_dir (cwd s) c) = cwd s)"
      by (rule directory_completed_iff [OF d])
    show "list_all (\<lambda>n. \<not> isAbsolute n \<and> parent_dir (fs_path (cwd s') n) = cwd s')
       [''server.js'', ''views'', ''public'', ''.gitignore'']"
      using template_directory [OF w] by simp
    show "parent_dir (fs_path (cwd s') (manifest_file (cwd s) c)) = fs_path (cwd s) (target_dir (cwd s) c)"
      using artifact_directories(1) [OF a, of "cwd s'" c] f [OF isAbsolute_files(1) [OF a]] by simp
    show "parent_dir (parent_dir (fs_path (cwd s') (development_file (cwd s) c))) =
       fs_path (cwd s) (target_dir (cwd s) c)"
      using artifact_directories(2) [OF a, of "cwd s'" c] f [OF isAbsolute_files(1) [OF a]] by simp
    show "parent_dir (parent_dir (fs_path (cwd s') (production_file (cwd s) c))) =
       fs_path (cwd s) (target_dir (cwd s) c)"
      using artifact_directories(3) [OF a, of "cwd s'" c] f [OF isAbsolute_files(1) [OF a]] by simp
    show "parent_dir (parent_dir (fs_path (cwd s') (keys_dir (cwd s) c))) =
       fs_path (cwd s) (target_dir (cwd s) c)"
      using artifact_directories(4) [OF a, of "cwd s'" c] f [OF isAbsolute_files(1) [OF a]] by simp
  qed (simp_all add: isAbsolute_files [OF a] isAbsolute_keys_dir [OF a] steps_keep_cwd)
qed

theorem artifact_families_meet_iff_target_is_working_directory_witness:
  "isAbsolute (cwd empty_target) \<and> fs_path (cwd empty_target) (cwd empty_target) = cwd empty_target \<and>
   directory quiet proj empty_target = (Called None, empty_target) \<and>
   parent_dir (fs_path (cwd empty_target) (manifest_file (cwd empty_target) proj)) = ''/home/u/proj'' \<and>
   parent_dir (fs_path (cwd empty_target) ''server.js'') = ''/home/u'' \<and>
   cwd empty_target \<noteq> fs_path (cwd empty_target) (target_dir (cwd empty_target) proj) \<and>
   Chdir (target_dir (cwd empty_target) proj) \<notin> set (new_events empty_target empty_target)"
proof -
  have w: "cwd empty_target = ''/home/u''" by code_simp
  have a: "isAbsolute (cwd empty_target)" by code_simp
  have k: "fs_path (cwd empty_target) (cwd empty_target) = cwd empty_target" by code_simp
  have t: "target_dir ''/home/u'' proj = ''/home/u/proj''" by code_simp
  have p: "fs_path ''/home/u'' ''/home/u/proj'' = ''/home/u/proj''" by code_simp
  have n: "node_at empty_target ''/home/u/proj'' = Some Dir" by code_simp
  have ch: "children ''/home/u/proj'' (fs empty_target) = []" by code_simp
  have e: "readdir_err quiet ''/home/u/proj'' = None" by (simp add: quiet_def)
  have d: "directory quiet proj empty_target = (Called None, empty_target)"
    by (rule directory_empty) (simp_all add: w t p n ch e)
  note r = artifact_families_meet_iff_target_is_working_directory
    [of empty_target quiet proj empty_target, rule_format, OF conjI [OF a conjI [OF k d]],
     unfolded w t p]
  have ne: "Chdir ''/home/u/proj'' \<notin> set (new_events empty_target empty_target)"
    by (simp add: new_events_def)
  show ?thesis
    using a k d r ne unfolding w t p by simp
qed

text \<open>
  C9 as stated fails for the default target. In an empty working directory the
  directory step completes without changing the working directory (it returns the
  state unchanged), and yet the manifest and the templates land in the same
  directory.
\<close>

theorem default_target_needs_no_chdir:
  "directory quiet here fresh = (Called None, fresh) \<and>
   parent_dir (fs_path (cwd fresh) (manifest_file (cwd fresh) here)) = ''/home/u/app'' \<and>
   parent_dir (fs_path (cwd fresh) ''server.js'') = ''/home/u/app''"
proof -
  have t: "target_dir (cwd fresh) here = ''/home/u/app''" by code_simp
  have p: "fs_path (cwd fresh) ''/home/u/app'' = ''/home/u/app''" by code_simp
  have n: "node_at fresh ''/home/u/app'' = Some Dir" by code_simp
  have ch: "children ''/home/u/app'' (fs fresh) = []" by code_simp
  have e: "readdir_err quiet ''/home/u/app'' = None" by (simp add: quiet_def)
  have d: "directory quiet here fresh = (Called None, fresh)"
    by (rule directory_empty) (simp_all add: t p n ch e)
  have m: "parent_dir (fs_path (cwd fresh) (manifest_file (cwd fresh) here)) = ''/home/u/app''"
    by code_simp
  have s: "parent_dir (fs_path (cwd fresh) ''server.js'') = ''/home/u/app''" by code_simp
  show ?thesis using d m s by blast
qed

text \<open>
  C10. When the destination is absent, the write-if-absent JSON primitive logs the
  Generated message after the write attempt whatever its result, and passes the
  result of the write to the completion callback; when the write failed, the file
  system is unchanged and the file still does not exist, although it was logged as
  generated. The copy primitive behaves the same way.
\<close>

theorem generated_logged_whatever_the_write_result:
  "(\<not> fs_exists s file \<longrightarrow>
      fst (safeJSON E file obj s) = Called (output_json_err E file) \<and>
      new_events s (snd (safeJSON E file obj s)) =
        [OutputJSON file obj,
         ConsoleLog ('' * Generated '' @ replace_first (cwd s @ ''/'') [] file)] \<and>
      (output_json_err E file \<noteq> None \<longrightarrow>
         fs (snd (safeJSON E file obj s)) = fs s \<and>
         \<not> fs_exists (snd (safeJSON E file obj s)) file)) \<and>
   (\<not> fs_exists s to \<longrightarrow>
      fst (safeCopy E from to s) = Called (fst (copy E from to s)) \<and>
      new_events s (snd (safeCopy E from to s)) =
        [Copy from to, ConsoleLog ('' * Generated '' @ to)] \<and>
      (fst (copy E from to s) \<noteq> None \<longrightarrow>
         fs (snd (safeCopy E from to s)) = fs s \<and>
         \<not> fs_exists (snd (safeCopy E from to s)) to))"
proof (intro conjI impI)
  assume a: "\<not> fs_exists s file"
  show "fst (safeJSON E file obj s) = Called (output_json_err E file)"
    using a by (simp add: safeJSON_absent)
  show "new_events s (snd (safeJSON E file obj s)) =
        [OutputJSON file obj,
         ConsoleLog ('' * Generated '' @ replace_first (cwd s @ ''/'') [] file)]"
    using a by (cases "output_json_err E file")
      (simp_all add: safeJSON_absent outputJSON_failed outputJSON_ok new_events_def)
  assume "output_json_err E file \<noteq> None"
  then obtain e where e: "output_json_err E file = Some e" by auto
  show "fs (snd (safeJSON E file obj s)) = fs s"
    using a e by (simp add: safeJSON_absent outputJSON_failed)
  show "\<not> fs_exists (snd (safeJSON E file obj s)) file"
    using a e by (simp add: safeJSON_absent outputJSON_failed)
next
  assume a: "\<not> fs_exists s to"
  show "fst (safeCopy E from to s) = Called (fst (copy E from to s))"
    using a by (simp add: safeCopy_absent)
  show "new_events s (snd (safeCopy E from to s)) =
        [Copy from to, ConsoleLog ('' * Generated '' @ to)]"
    using a by (simp add: safeCopy_absent new_events_def copy_trace)
  assume e: "fst (copy E from to s) \<noteq> None"
  show "fs (snd (safeCopy E from to s)) = fs s"
    using a e by (simp add: safeCopy_absent copy_failed)
  show "\<not> fs_exists (snd (safeCopy E from to s)) to"
    using a e by (simp add: safeCopy_absent copy_failed)
qed

theorem generated_logged_whatever_the_write_result_witness:
  "(\<not> fs_exists at_home ''/home/u/package.json'' \<and>
    output_json_err readonly ''/home/u/package.json'' = Some (SysError ''EACCES'') \<and>
    fst (safeJSON readonly ''/home/u/package.json'' (JBool True) at_home) =
      Called (Some (SysError ''EACCES'')) \<and>
    new_events at_home (snd (safeJSON readonly ''/home/u/package.json'' (JBool True) at_home)) =
      [OutputJSON ''/home/u/package.json'' (JBool True), ConsoleLog '' * Generated package.json''] \<and>
    \<not> fs_exists (snd (safeJSON readonly ''/home/u/package.json'' (JBool True) at_home))
        ''/home/u/package.json'') \<and>
   (\<not> fs_exists at_home ''server.js'' \<and>
    fst (safeCopy no_copy ''/opt/cli/lib/files/server.js'' ''server.js'' at_home) =
      Called (Some (SysError ''EACCES'')) \<and>
    new_events at_home (snd (safeCopy no_copy ''/opt/cli/lib/files/server.js'' ''server.js'' at_home)) =
      [Copy ''/opt/cli/lib/files/server.js'' ''server.js'', ConsoleLog '' * Generated server.js''] \<and>
    \<not> fs_exists (snd (safeCopy no_copy ''/opt/cli/lib/files/server.js'' ''server.js'' at_home))
        ''server.js'')"
proof -
  have h: "\<not> fs_exists at_home ''/home/u/package.json''" by code_simp
  have e: "output_json_err readonly ''/home/u/package.json'' = Some (SysError ''EACCES'')"
    by (simp add: readonly_def)
  have m: "replace_first (cwd at_home @ ''/'') [] ''/home/u/package.json'' = ''package.json''"
    by code_simp
  have h': "\<not> fs_exists at_home ''server.js''" by code_simp
  have e': "fst (copy no_copy ''/opt/cli/lib/files/server.js'' ''server.js'' at_home) =
            Some (SysError ''EACCES'')" by code_simp
  note j = generated_logged_whatever_the_write_result
    [of at_home "''/home/u/package.json''" readonly "JBool True", THEN conjunct1, rule_format, OF h]
  note c = generated_logged_whatever_the_write_result
    [of at_home _ no_copy _ "''server.js''" "''/opt/cli/lib/files/server.js''",
     THEN conjunct2, rule_format, OF h']
  show ?thesis
    using h e h' j c unfolding m e e' by simp
qed

end
